theory Spec2Isabelle
  imports Main "HOL-Library.Sublist"
begin

section \<open>JavaScript values and the runtime the code calls into\<close>

text \<open>
  The TypeScript sources parse JSON and cast the result to an interface without checking
  it (\<^verbatim>\<open>JSON.parse(json) as AgentRegistrationFile\<close>), so the values that flow through
  the code are plain JSON values. Numbers in JSON are the integers; a missing property
  (\<^verbatim>\<open>undefined\<close>) is \<open>None\<close>. Strings are lists of characters.
\<close>

datatype json =
    JNull
  | JBool bool
  | JNum int
  | JStr string
  | JArr "json list"
  | JObj "(string \<times> json) list"

text \<open>
  A thrown exception is the \<open>Inl\<close> of a sum; its payload is the \<^verbatim>\<open>message\<close> of
  the JavaScript \<^verbatim>\<open>Error\<close>.
\<close>

type_synonym 'a throws = "string + 'a"

text \<open>Property read \<^verbatim>\<open>v.k\<close>: a \<^verbatim>\<open>TypeError\<close> on \<^verbatim>\<open>null\<close>, the own property of
  an object, \<^verbatim>\<open>undefined\<close> on every other value.\<close>

fun get_prop :: "json \<Rightarrow> string \<Rightarrow> json option throws" where
  "get_prop JNull k =
     Inl (''Cannot read properties of null (reading '' @ [CHR 0x27] @ k @ [CHR 0x27] @ '')'')"
| "get_prop (JObj kvs) k = Inr (map_of kvs k)"
| "get_prop v k = Inr None"

text \<open>Truthiness of a value that may be \<^verbatim>\<open>undefined\<close>.\<close>

fun truthy :: "json option \<Rightarrow> bool" where
  "truthy None = False"
| "truthy (Some JNull) = False"
| "truthy (Some (JBool b)) = b"
| "truthy (Some (JNum n)) = (n \<noteq> 0)"
| "truthy (Some (JStr s)) = (s \<noteq> [])"
| "truthy (Some (JArr vs)) = True"
| "truthy (Some (JObj kvs)) = True"

text \<open>\<^verbatim>\<open>x ?? y\<close>: \<^verbatim>\<open>y\<close> when \<^verbatim>\<open>x\<close> is \<^verbatim>\<open>null\<close> or \<^verbatim>\<open>undefined\<close>.\<close>

fun nullish :: "json option \<Rightarrow> bool" where
  "nullish None = True"
| "nullish (Some JNull) = True"
| "nullish (Some v) = False"

record http_response =
  status :: nat
  text_body :: "string throws"

text \<open>
  What the code reaches outside the repository: the chain client's \<^verbatim>\<open>readContract\<close>
  (RPC URL, contract address, function name, token id), the network \<^verbatim>\<open>fetch\<close>, the
  JSON codec, \<^verbatim>\<open>Buffer\<close>'s base64 codec (\<^verbatim>\<open>Buffer.from(s, "base64").toString("utf8")\<close>
  and \<^verbatim>\<open>Buffer.from(s).toString("base64")\<close>), \<^verbatim>\<open>decodeURIComponent\<close>, the clock, and
  \<^verbatim>\<open>connect\<close> of the protocol engine (\<^verbatim>\<open>McpServer\<close>), which sees the transports connected
  to the engine so far and those that have closed. They are parameters of the model; each
  one that can throw returns a sum.
\<close>

record runtime =
  readContract :: "string \<Rightarrow> string \<Rightarrow> string \<Rightarrow> nat \<Rightarrow> string throws"
  fetch :: "string \<Rightarrow> http_response throws"
  JSON_parse :: "string \<Rightarrow> json throws"
  JSON_stringify :: "json \<Rightarrow> string"
  base64_decode :: "string \<Rightarrow> string"
  base64_encode :: "string \<Rightarrow> string"
  decodeURIComponent :: "string \<Rightarrow> string throws"
  Date_now :: nat
  mcp_connect :: "nat list \<Rightarrow> nat list \<Rightarrow> unit throws"

section \<open>Strings\<close>

definition is_digit :: "char \<Rightarrow> bool" where
  "is_digit c = (48 \<le> (of_char c :: nat) \<and> (of_char c :: nat) \<le> 57)"

definition is_hex :: "char \<Rightarrow> bool" where
  "is_hex c = (let n = (of_char c :: nat) in
     (48 \<le> n \<and> n \<le> 57) \<or> (97 \<le> n \<and> n \<le> 102) \<or> (65 \<le> n \<and> n \<le> 70))"

definition toLowerChar :: "char \<Rightarrow> char" where
  "toLowerChar c = (let n = (of_char c :: nat) in
     if 65 \<le> n \<and> n \<le> 90 then char_of (n + 32) else c)"

definition toLowerCase :: "string \<Rightarrow> string" where
  "toLowerCase s = map toLowerChar s"

definition startsWith :: "string \<Rightarrow> string \<Rightarrow> bool" where
  "startsWith s p = (take (length p) s = p)"

text \<open>\<^verbatim>\<open>s.includes(t)\<close>: \<open>t\<close> occurs in \<open>s\<close> as a contiguous substring.\<close>

definition str_includes :: "string \<Rightarrow> string \<Rightarrow> bool" where
  "str_includes s t = sublist t s"

text \<open>\<^verbatim>\<open>s.replace(a, b)\<close> with string arguments replaces the first occurrence only.\<close>

fun replace_first :: "char \<Rightarrow> char \<Rightarrow> string \<Rightarrow> string" where
  "replace_first a b [] = []"
| "replace_first a b (c # cs) = (if c = a then b # cs else c # replace_first a b cs)"

text \<open>
  The numbers of this code come from strings of decimal digits and from chain and token
  ids: they are non-negative integers. A JavaScript number is a double, so such a number is
  a natural that a double holds, or \<^verbatim>\<open>Infinity\<close>.
\<close>

datatype number = Finite nat | Infinity

text \<open>The mathematical value of a string of decimal digits.\<close>

definition digit_value :: "char \<Rightarrow> nat" where
  "digit_value c = of_char c - 48"

definition digits_value :: "string \<Rightarrow> nat" where
  "digits_value ds = foldl (\<lambda>acc c. 10 * acc + digit_value c) 0 ds"

text \<open>
  The double nearest to a natural (ties to the even significand). Below \<open>2 ^ 53\<close> every
  natural is a double. Above, \<open>double_exponent n\<close> is the number of low bits a 53-bit
  significand cannot hold; a result of \<open>2 ^ 1024\<close> or more is \<^verbatim>\<open>Infinity\<close>.
\<close>

function double_exponent :: "nat \<Rightarrow> nat" where
  "double_exponent n = (if n < 2 ^ 53 then 0 else Suc (double_exponent (n div 2)))"
  by pat_completeness auto
termination
  by (relation "measure id") auto

declare double_exponent.simps [simp del]

definition to_double :: "nat \<Rightarrow> number" where
  "to_double n =
     (let e = double_exponent n;
          q = n div 2 ^ e;
          r = n mod 2 ^ e;
          q' = (if 2 ^ e < 2 * r \<or> (2 * r = 2 ^ e \<and> odd q) then q + 1 else q)
      in if 2 ^ 1024 \<le> q' * 2 ^ e then Infinity else Finite (q' * 2 ^ e))"

text \<open>\<^verbatim>\<open>Number(ds)\<close> on a string of decimal digits.\<close>

definition Number :: "string \<Rightarrow> number" where
  "Number ds = to_double (digits_value ds)"

text \<open>The decimal digits of a natural.\<close>

definition digit_char :: "nat \<Rightarrow> char" where
  "digit_char d = char_of (48 + d)"

function show_nat :: "nat \<Rightarrow> string" where
  "show_nat n = (if n < 10 then [digit_char n] else show_nat (n div 10) @ [digit_char (n mod 10)])"
  by pat_completeness auto
termination
  by (relation "measure id") auto

declare show_nat.simps [simp del]

text \<open>
  A number inside a template literal is converted by \<^verbatim>\<open>Number::toString\<close>. An integer up
  to \<open>2 ^ 53\<close> prints its digits. A larger double prints the shortest decimal that still
  converts back to it (the nearest one, with an even last digit on a tie): the search
  drops \<open>j\<close> trailing digits, most first, and tries the multiples of \<open>10 ^ j\<close> on both sides.
  Below \<open>10 ^ 21\<close> that decimal is printed in full, from there on in exponent form.
\<close>

fun shortest_decimal :: "nat \<Rightarrow> nat \<Rightarrow> nat" where
  "shortest_decimal n 0 = n"
| "shortest_decimal n (Suc j) =
     (let scale = 10 ^ Suc j;
          lo = n div scale * scale;
          hi = lo + scale;
          lo_ok = (to_double lo = Finite n);
          hi_ok = (to_double hi = Finite n)
      in if lo_ok \<and> hi_ok then
           (if n - lo < hi - n then lo
            else if hi - n < n - lo then hi
            else if even (n div scale) then lo else hi)
         else if lo_ok then lo
         else if hi_ok then hi
         else shortest_decimal n j)"

definition exponent_form :: "nat \<Rightarrow> string" where
  "exponent_form c =
     (let ds = show_nat c;
          sig = rev (dropWhile (\<lambda>d. d = CHR ''0'') (rev ds))
      in (case sig of
            [] \<Rightarrow> []
          | d # frac \<Rightarrow> if frac = [] then [d] else d # CHR ''.'' # frac) @
         ''e+'' @ show_nat (length ds - 1))"

definition Number_toString :: "number \<Rightarrow> string" where
  "Number_toString x =
     (case x of
        Infinity \<Rightarrow> ''Infinity''
      | Finite n \<Rightarrow>
          if n \<le> 2 ^ 53 then show_nat n
          else (let c = shortest_decimal n (length (show_nat n) - 1)
                in if c < 10 ^ 21 then show_nat c else exponent_form c))"

text \<open>\<^verbatim>\<open>BigInt(x)\<close> on a number: a \<^verbatim>\<open>RangeError\<close> unless it is an integer.\<close>

definition BigInt :: "number \<Rightarrow> nat throws" where
  "BigInt x =
     (case x of
        Finite n \<Rightarrow> Inr n
      | Infinity \<Rightarrow>
          Inl ''The number Infinity cannot be converted to a BigInt because it is not an integer'')"

section \<open>Identity: constants\<close>

definition IDENTITY_REGISTRY_ADDRESS :: string where
  "IDENTITY_REGISTRY_ADDRESS = ''0x8004A169FB4a3325136EB29fA0ceB6D2e539a432''"

definition ZERO_ADDRESS :: string where
  "ZERO_ADDRESS = ''0x0000000000000000000000000000000000000000''"

definition REGISTRATION_TYPE :: string where
  "REGISTRATION_TYPE = ''https://eips.ethereum.org/EIPS/eip-8004#registration-v1''"

record chain_defaults =
  chain_name :: string
  rpc :: string

definition SUPPORTED_CHAINS :: "nat \<Rightarrow> chain_defaults option" where
  "SUPPORTED_CHAINS = map_of
   [ (1, \<lparr>chain_name = ''Ethereum'', rpc = ''https://eth.llamarpc.com''\<rparr>),
     (8453, \<lparr>chain_name = ''Base'', rpc = ''https://mainnet.base.org''\<rparr>),
     (10, \<lparr>chain_name = ''Optimism'', rpc = ''https://mainnet.optimism.io''\<rparr>),
     (42161, \<lparr>chain_name = ''Arbitrum'', rpc = ''https://arb1.arbitrum.io/rpc''\<rparr>),
     (137, \<lparr>chain_name = ''Polygon'', rpc = ''https://polygon-rpc.com''\<rparr>),
     (56, \<lparr>chain_name = ''BNB Chain'', rpc = ''https://bsc-dataseed.binance.org''\<rparr>),
     (100, \<lparr>chain_name = ''Gnosis'', rpc = ''https://rpc.gnosischain.com''\<rparr>),
     (42220, \<lparr>chain_name = ''Celo'', rpc = ''https://forno.celo.org''\<rparr>),
     (59144, \<lparr>chain_name = ''Linea'', rpc = ''https://rpc.linea.build''\<rparr>),
     (534352, \<lparr>chain_name = ''Scroll'', rpc = ''https://rpc.scroll.io''\<rparr>),
     (167000, \<lparr>chain_name = ''Taiko'', rpc = ''https://rpc.mainnet.taiko.xyz''\<rparr>),
     (43114, \<lparr>chain_name = ''Avalanche'', rpc = ''https://api.avax.network/ext/bc/C/rpc''\<rparr>),
     (5000, \<lparr>chain_name = ''Mantle'', rpc = ''https://rpc.mantle.xyz''\<rparr>),
     (1088, \<lparr>chain_name = ''Metis'', rpc = ''https://andromeda.metis.io/?owner=1088''\<rparr>),
     (2741, \<lparr>chain_name = ''Abstract'', rpc = ''https://api.mainnet.abs.xyz''\<rparr>),
     (143, \<lparr>chain_name = ''Monad'', rpc = ''https://rpc.monad.xyz''\<rparr>) ]"

section \<open>Identity: parsing and formatting a global id\<close>

record AgentRef =
  namespace :: string
  chainId :: number
  registry :: string
  agentId :: number

text \<open>
  The pattern \<^verbatim>\<open>/^(eip155):(\d+):(0x[0-9a-fA-F]+)#(\d+)$/\<close>. Each repetition is followed
  by a character outside its class, so the greedy match is the longest run of the class;
  the result is the three variable groups.
\<close>

definition match_global_id :: "string \<Rightarrow> (string \<times> string \<times> string) option" where
  "match_global_id s =
     (if \<not> startsWith s ''eip155:'' then None
      else let r1 = drop 7 s;
               c = takeWhile is_digit r1;
               r2 = dropWhile is_digit r1
           in if c = [] \<or> \<not> startsWith r2 '':0x'' then None
      else let r3 = drop 3 r2;
               h = takeWhile is_hex r3;
               r4 = dropWhile is_hex r3
           in if h = [] \<or> \<not> startsWith r4 ''#'' then None
      else let r5 = drop 1 r4;
               a = takeWhile is_digit r5;
               r6 = dropWhile is_digit r5
           in if a = [] \<or> r6 \<noteq> [] then None
      else Some (c, ''0x'' @ h, a))"

definition invalid_format_message :: "string \<Rightarrow> string" where
  "invalid_format_message globalId =
     ''Invalid agent global ID format: '' @ [CHR 0x22] @ globalId @ [CHR 0x22, CHR 0x0A] @
     ''Expected: '' @ [CHR 0x22] @ ''eip155:{chainId}:{registry}#{agentId}'' @ [CHR 0x22] @
     '' (e.g. '' @ [CHR 0x22] @ ''eip155:8453:0x8004...#2376'' @ [CHR 0x22] @ '')''"

definition parseAgentId :: "string \<Rightarrow> AgentRef throws" where
  "parseAgentId globalId =
     (let normalized = replace_first CHR ''/'' CHR ''#'' globalId
      in case match_global_id normalized of
           None \<Rightarrow> Inl (invalid_format_message globalId)
         | Some (c, r, a) \<Rightarrow>
             Inr \<lparr>namespace = ''eip155'', chainId = Number c, registry = r, agentId = Number a\<rparr>)"

definition formatAgentId :: "AgentRef \<Rightarrow> string" where
  "formatAgentId ref =
     namespace ref @ '':'' @ Number_toString (chainId ref) @ '':'' @ registry ref @ ''#'' @
     Number_toString (agentId ref)"

section \<open>Identity: fetching the registration file\<close>

definition DEFAULT_IPFS_GATEWAY :: string where
  "DEFAULT_IPFS_GATEWAY = ''https://ipfs.io/ipfs/''"

definition response_ok :: "http_response \<Rightarrow> bool" where
  "response_ok r = (200 \<le> status r \<and> status r \<le> 299)"

text \<open>
  \<^verbatim>\<open>fetchRegistrationFile\<close> returns the parsed JSON or throws. The first component of
  the result lists the URLs it requested from the network, in order.
\<close>

definition fetchRegistrationFile ::
  "runtime \<Rightarrow> string \<Rightarrow> string \<Rightarrow> string list \<times> json throws" where
  "fetchRegistrationFile rt agentUri ipfsGateway =
     (if startsWith agentUri ''data:application/json;base64,'' then
        (let b64 = drop (length ''data:application/json;base64,'') agentUri
         in ([], JSON_parse rt (base64_decode rt b64)))
      else if startsWith agentUri ''data:application/json,'' then
        ([], case decodeURIComponent rt (drop (length ''data:application/json,'') agentUri) of
               Inl e \<Rightarrow> Inl e
             | Inr json \<Rightarrow> JSON_parse rt json)
      else if startsWith agentUri ''ipfs://'' then
        (let cid = drop (length ''ipfs://'') agentUri;
             url = ipfsGateway @ cid
         in ([url],
             case fetch rt url of
               Inl e \<Rightarrow> Inl e
             | Inr response \<Rightarrow>
                 if \<not> response_ok response then
                   Inl (''Failed to fetch IPFS URI: '' @ agentUri @ '' ('' @
                        Number_toString (Finite (status response)) @ '')'')
                 else (case text_body response of
                         Inl e \<Rightarrow> Inl e
                       | Inr json \<Rightarrow> JSON_parse rt json)))
      else if startsWith agentUri ''https://'' \<or> startsWith agentUri ''http://'' then
        ([agentUri],
         case fetch rt agentUri of
           Inl e \<Rightarrow> Inl e
         | Inr response \<Rightarrow>
             if \<not> response_ok response then
               Inl (''Failed to fetch agent URI: '' @ agentUri @ '' ('' @
                    Number_toString (Finite (status response)) @ '')'')
             else (case text_body response of
                     Inl e \<Rightarrow> Inl e
                   | Inr json \<Rightarrow> JSON_parse rt json))
      else
        ([], Inl (''Unsupported URI scheme: '' @ [CHR 0x22] @ agentUri @ [CHR 0x22] @ ''. '' @
                  ''Supported: data:, ipfs://, https://, http://'')))"

section \<open>Identity: verification\<close>

record VerificationResult =
  valid :: bool
  vr_agentId :: number
  owner :: "string option"
  paymentWallet :: "string option"
  registration :: "json option"
  globalId :: string
  error :: "string option"

text \<open>The argument of \<^verbatim>\<open>verifyAgent\<close>: a global id string, or an object
  \<^verbatim>\<open>{chainId, agentId, registry?, rpc?}\<close>.\<close>

datatype verify_input =
    GlobalId string
  | RefObject number number "string option" "string option"

text \<open>\<^verbatim>\<open>x.toLowerCase()\<close> on a value that was cast to \<^verbatim>\<open>string\<close>.\<close>

fun call_toLowerCase :: "json option \<Rightarrow> string throws" where
  "call_toLowerCase None =
     Inl (''Cannot read properties of undefined (reading '' @ [CHR 0x27] @ ''toLowerCase'' @
          [CHR 0x27] @ '')'')"
| "call_toLowerCase (Some JNull) =
     Inl (''Cannot read properties of null (reading '' @ [CHR 0x27] @ ''toLowerCase'' @
          [CHR 0x27] @ '')'')"
| "call_toLowerCase (Some (JStr s)) = Inr (toLowerCase s)"
| "call_toLowerCase (Some v) = Inl ''r.agentRegistry.toLowerCase is not a function''"

text \<open>\<^verbatim>\<open>Array.prototype.some\<close> with a callback that may throw.\<close>

fun array_some :: "(json \<Rightarrow> bool throws) \<Rightarrow> json list \<Rightarrow> bool throws" where
  "array_some f [] = Inr False"
| "array_some f (x # xs) =
     (case f x of
        Inl e \<Rightarrow> Inl e
      | Inr b \<Rightarrow> if b then Inr True else array_some f xs)"

text \<open>\<^verbatim>\<open>v === x\<close> for a JSON value and a number.\<close>

fun strict_equal :: "json option \<Rightarrow> number \<Rightarrow> bool" where
  "strict_equal (Some (JNum i)) (Finite n) = (i = int n)"
| "strict_equal v x = False"

text \<open>The callback of the back-reference test:
  \<^verbatim>\<open>r.agentId === ref.agentId && r.agentRegistry.toLowerCase() === registryPrefix\<close>.\<close>

definition backref_entry :: "AgentRef \<Rightarrow> string \<Rightarrow> json \<Rightarrow> bool throws" where
  "backref_entry ref registryPrefix r =
     (case get_prop r ''agentId'' of
        Inl e \<Rightarrow> Inl e
      | Inr a \<Rightarrow>
          if \<not> strict_equal a (agentId ref) then Inr False
          else (case get_prop r ''agentRegistry'' of
                  Inl e \<Rightarrow> Inl e
                | Inr g \<Rightarrow>
                    (case call_toLowerCase g of
                       Inl e \<Rightarrow> Inl e
                     | Inr l \<Rightarrow> Inr (l = registryPrefix))))"

text \<open>\<^verbatim>\<open>registration.registrations?.some(...)\<close>; the \<^verbatim>\<open>undefined\<close> of the optional
  chain is only ever negated, so it is \<open>False\<close> here.\<close>

definition hasBackref :: "AgentRef \<Rightarrow> string \<Rightarrow> json \<Rightarrow> bool throws" where
  "hasBackref ref registryPrefix reg =
     (case get_prop reg ''registrations'' of
        Inl e \<Rightarrow> Inl e
      | Inr None \<Rightarrow> Inr False
      | Inr (Some JNull) \<Rightarrow> Inr False
      | Inr (Some (JArr rs)) \<Rightarrow> array_some (backref_entry ref registryPrefix) rs
      | Inr (Some v) \<Rightarrow> Inl ''registration.registrations?.some is not a function'')"

definition registryPrefix_of :: "AgentRef \<Rightarrow> string" where
  "registryPrefix_of ref =
     ''eip155:'' @ Number_toString (chainId ref) @ '':'' @ toLowerCase (registry ref)"

definition backref_missing_message :: "AgentRef \<Rightarrow> string" where
  "backref_missing_message ref =
     ''Registration file does not contain a back-reference to this chain's registry. '' @
     ''Expected registrations entry: { agentId: '' @ Number_toString (agentId ref) @
     '', agentRegistry: '' @ [CHR 0x22] @ registryPrefix_of ref @ [CHR 0x22] @ '' }''"

text \<open>The body of the \<^verbatim>\<open>try\<close> block of \<^verbatim>\<open>verifyAgent\<close>: it returns a result or
  throws into the enclosing \<^verbatim>\<open>catch\<close>. Each ledger read passes \<^verbatim>\<open>BigInt(ref.agentId)\<close>.\<close>

definition verify_try :: "runtime \<Rightarrow> string \<Rightarrow> AgentRef \<Rightarrow> VerificationResult throws" where
  "verify_try rt rpcUrl ref =
     (case BigInt (agentId ref) of
        Inl e \<Rightarrow> Inl e
      | Inr tokenId \<Rightarrow>
     (case readContract rt rpcUrl (registry ref) ''ownerOf'' tokenId of
        Inl e \<Rightarrow> Inl e
      | Inr own \<Rightarrow>
     (case readContract rt rpcUrl (registry ref) ''getAgentWallet'' tokenId of
        Inl e \<Rightarrow> Inl e
      | Inr paymentWalletRaw \<Rightarrow>
     (let wallet = (if paymentWalletRaw = ZERO_ADDRESS then None else Some paymentWalletRaw)
      in case readContract rt rpcUrl (registry ref) ''tokenURI'' tokenId of
        Inl e \<Rightarrow> Inl e
      | Inr agentUri \<Rightarrow>
     (case snd (fetchRegistrationFile rt agentUri DEFAULT_IPFS_GATEWAY) of
        Inl e \<Rightarrow>
          Inr \<lparr>valid = False, vr_agentId = agentId ref, owner = Some own,
               paymentWallet = wallet, registration = None, globalId = formatAgentId ref,
               error = Some (''Failed to fetch registration file: '' @ e)\<rparr>
      | Inr reg \<Rightarrow>
     (case hasBackref ref (registryPrefix_of ref) reg of
        Inl e \<Rightarrow> Inl e
      | Inr b \<Rightarrow>
          if \<not> b then
            Inr \<lparr>valid = False, vr_agentId = agentId ref, owner = Some own,
                 paymentWallet = wallet, registration = Some reg,
                 globalId = formatAgentId ref,
                 error = Some (backref_missing_message ref)\<rparr>
          else
            Inr \<lparr>valid = True, vr_agentId = agentId ref, owner = Some own,
                 paymentWallet = wallet, registration = Some reg,
                 globalId = formatAgentId ref, error = None\<rparr>))))))"

text \<open>The \<^verbatim>\<open>catch\<close> block around it.\<close>

definition verify_catch :: "AgentRef \<Rightarrow> string \<Rightarrow> VerificationResult" where
  "verify_catch ref message =
     \<lparr>valid = False, vr_agentId = agentId ref, owner = None, paymentWallet = None,
      registration = None, globalId = formatAgentId ref,
      error = Some (if str_includes message ''revert'' \<or> str_includes message ''ERC721''
                    then ''Agent #'' @ Number_toString (agentId ref) @
                         '' does not exist on chain '' @ Number_toString (chainId ref)
                    else message)\<rparr>"

definition no_rpc_message :: "AgentRef \<Rightarrow> string" where
  "no_rpc_message ref =
     ''No RPC URL available for chain '' @ Number_toString (chainId ref) @
     ''. Add to SUPPORTED_CHAINS or pass rpc option.''"

text \<open>
  \<^verbatim>\<open>verifyAgent\<close>. \<^verbatim>\<open>parseAgentId\<close> is called before the \<^verbatim>\<open>try\<close> block, so what it
  throws leaves the function. Creating the chain client makes no call and does not throw.
\<close>

definition ref_of_input :: "verify_input \<Rightarrow> AgentRef throws" where
  "ref_of_input globalIdOrRef =
     (case globalIdOrRef of
        GlobalId s \<Rightarrow> parseAgentId s
      | RefObject c a reg r \<Rightarrow>
          Inr \<lparr>namespace = ''eip155'', chainId = c,
               registry = (case reg of None \<Rightarrow> IDENTITY_REGISTRY_ADDRESS | Some x \<Rightarrow> x),
               agentId = a\<rparr>)"

definition rpcUrl_of_input :: "verify_input \<Rightarrow> AgentRef \<Rightarrow> string option" where
  "rpcUrl_of_input globalIdOrRef ref =
     (let chainDefaults = (case chainId ref of
                             Finite c \<Rightarrow> SUPPORTED_CHAINS c
                           | Infinity \<Rightarrow> None);
          override = (case globalIdOrRef of GlobalId s \<Rightarrow> None | RefObject c a reg r \<Rightarrow> r)
      in case override of
           Some r \<Rightarrow> Some r
         | None \<Rightarrow> map_option rpc chainDefaults)"

definition no_rpc_result :: "AgentRef \<Rightarrow> VerificationResult" where
  "no_rpc_result ref =
     \<lparr>valid = False, vr_agentId = agentId ref, owner = None, paymentWallet = None,
      registration = None, globalId = formatAgentId ref, error = Some (no_rpc_message ref)\<rparr>"

definition verifyAgent :: "runtime \<Rightarrow> verify_input \<Rightarrow> VerificationResult throws" where
  "verifyAgent rt globalIdOrRef =
     (case ref_of_input globalIdOrRef of
        Inl e \<Rightarrow> Inl e
      | Inr ref \<Rightarrow>
          (case rpcUrl_of_input globalIdOrRef ref of
             None \<Rightarrow> Inr (no_rpc_result ref)
           | Some url \<Rightarrow>
               if url = [] then Inr (no_rpc_result ref)
               else (case verify_try rt url ref of
                       Inl message \<Rightarrow> Inr (verify_catch ref message)
                     | Inr result \<Rightarrow> Inr result)))"

section \<open>Identity: building the registration URI\<close>

record AgentService =
  svc_name :: string
  svc_endpoint :: string
  svc_version :: "string option"
  svc_skills :: "string list option"
  svc_domains :: "string list option"

record AgentRegistrationRef =
  ref_agentId :: int
  ref_agentRegistry :: string

record RegisterOptions =
  opt_name :: string
  opt_description :: string
  opt_image :: "string option"
  opt_services :: "AgentService list option"
  opt_x402Support :: "bool option"
  opt_active :: "bool option"
  opt_supportedTrust :: "string list option"
  opt_existingRegistrations :: "AgentRegistrationRef list option"
  opt_storage :: "string option"
  opt_gasLimit :: "nat option"

text \<open>The fields of an \<^verbatim>\<open>AgentIdentity\<close> object that \<^verbatim>\<open>buildRegistrationUri\<close> reads:
  \<^verbatim>\<open>this.config.chain.id\<close> and \<^verbatim>\<open>this.registry\<close>.\<close>

record AgentIdentity =
  chain_id :: nat
  this_registry :: string

text \<open>The JavaScript objects as the JSON values \<^verbatim>\<open>JSON.stringify\<close> sees: a property
  whose value is \<^verbatim>\<open>undefined\<close> is left out.\<close>

definition optional_field :: "string \<Rightarrow> 'a option \<Rightarrow> ('a \<Rightarrow> json) \<Rightarrow> (string \<times> json) list" where
  "optional_field k v f = (case v of None \<Rightarrow> [] | Some x \<Rightarrow> [(k, f x)])"

definition service_json :: "AgentService \<Rightarrow> json" where
  "service_json s =
     JObj ([(''name'', JStr (svc_name s)), (''endpoint'', JStr (svc_endpoint s))] @
           optional_field ''version'' (svc_version s) JStr @
           optional_field ''skills'' (svc_skills s) (\<lambda>l. JArr (map JStr l)) @
           optional_field ''domains'' (svc_domains s) (\<lambda>l. JArr (map JStr l)))"

definition registration_ref_json :: "AgentRegistrationRef \<Rightarrow> json" where
  "registration_ref_json r =
     JObj [(''agentId'', JNum (ref_agentId r)),
           (''agentRegistry'', JStr (ref_agentRegistry r))]"

definition registration_file :: "AgentIdentity \<Rightarrow> RegisterOptions \<Rightarrow> nat option \<Rightarrow> json" where
  "registration_file this options agentId_opt =
     (let existing = (case opt_existingRegistrations options of Some l \<Rightarrow> l | None \<Rightarrow> []);
          registrations =
            (case agentId_opt of
               None \<Rightarrow> existing
             | Some aid \<Rightarrow>
                 \<lparr>ref_agentId = int aid,
                  ref_agentRegistry =
                    ''eip155:'' @ Number_toString (Finite (chain_id this)) @ '':'' @
                    this_registry this\<rparr>
                 # existing)
      in JObj ([(''type'', JStr REGISTRATION_TYPE),
                (''name'', JStr (opt_name options)),
                (''description'', JStr (opt_description options))] @
               (case opt_image options of
                  None \<Rightarrow> []
                | Some img \<Rightarrow> if img = [] then [] else [(''image'', JStr img)]) @
               [(''services'',
                   JArr (map service_json
                     (case opt_services options of Some l \<Rightarrow> l | None \<Rightarrow> []))),
                (''x402Support'',
                   JBool (case opt_x402Support options of Some b \<Rightarrow> b | None \<Rightarrow> False)),
                (''active'',
                   JBool (case opt_active options of Some b \<Rightarrow> b | None \<Rightarrow> True)),
                (''registrations'', JArr (map registration_ref_json registrations))] @
               optional_field ''supportedTrust'' (opt_supportedTrust options)
                 (\<lambda>l. JArr (map JStr l))))"

definition buildRegistrationUri ::
  "runtime \<Rightarrow> AgentIdentity \<Rightarrow> RegisterOptions \<Rightarrow> nat option \<Rightarrow> string" where
  "buildRegistrationUri rt this options agentId_opt =
     ''data:application/json;base64,'' @
     base64_encode rt (JSON_stringify rt (registration_file this options agentId_opt))"

section \<open>Payments: constants\<close>

definition USDC_BASE :: string where
  "USDC_BASE = ''0x833589fCD6eDb6E08f4c7C32D4f71b54bdA02913''"

definition USDC_ETH :: string where
  "USDC_ETH = ''0xA0b86991c6218b36c1d19D4a2e9Eb0cE3606eB48''"

definition USDC_POLYGON :: string where
  "USDC_POLYGON = ''0x3c499c542cEF5E3811e1192ce70d8cC03d5c3359''"

definition USDC_ARBITRUM :: string where
  "USDC_ARBITRUM = ''0xaf88d065e77c8cC2239327C5EDb3A432268e5831''"

definition USDC_OPTIMISM :: string where
  "USDC_OPTIMISM = ''0x0b2C639c533813f4Aa9D7837CAf62653d097Ff85''"

definition NETWORK_USDC :: "string \<Rightarrow> string option" where
  "NETWORK_USDC = map_of
     [(''eip155:1'', USDC_ETH), (''eip155:8453'', USDC_BASE), (''eip155:137'', USDC_POLYGON),
      (''eip155:42161'', USDC_ARBITRUM), (''eip155:10'', USDC_OPTIMISM)]"

definition DEFAULT_NETWORK :: string where
  "DEFAULT_NETWORK = ''eip155:8453''"

definition DEFAULT_MAX_AMOUNT :: string where
  "DEFAULT_MAX_AMOUNT = ''10000000''"

definition DEFAULT_TIMEOUT_SECONDS :: nat where
  "DEFAULT_TIMEOUT_SECONDS = 300"

section \<open>Payments: the payment server\<close>

text \<open>\<^verbatim>\<open>PaymentServerConfig\<close> as the caller passes it, and as the constructor stores it
  with every default filled in.\<close>

record PaymentServerConfig =
  cfg_payTo :: string
  cfg_amount :: string
  cfg_asset :: "string option"
  cfg_network :: "string option"
  cfg_description :: "string option"
  cfg_maxTimeoutSeconds :: "nat option"

record PaymentServer =
  payTo :: string
  amount :: string
  asset :: string
  network :: string
  description :: string
  maxTimeoutSeconds :: nat

definition new_PaymentServer :: "PaymentServerConfig \<Rightarrow> PaymentServer" where
  "new_PaymentServer config =
     (let net = (case cfg_network config of Some n \<Rightarrow> n | None \<Rightarrow> DEFAULT_NETWORK)
      in \<lparr>payTo = cfg_payTo config,
          amount = cfg_amount config,
          asset = (case cfg_asset config of
                     Some a \<Rightarrow> a
                   | None \<Rightarrow> (case NETWORK_USDC net of Some a \<Rightarrow> a | None \<Rightarrow> USDC_BASE)),
          network = net,
          description = (case cfg_description config of
                           Some d \<Rightarrow> d | None \<Rightarrow> ''AI agent service payment''),
          maxTimeoutSeconds = (case cfg_maxTimeoutSeconds config of
                                 Some t \<Rightarrow> t | None \<Rightarrow> DEFAULT_TIMEOUT_SECONDS)\<rparr>)"

record PaymentRequirements =
  req_scheme :: string
  req_network :: string
  req_maxAmountRequired :: string
  req_resource :: string
  req_description :: string
  req_payTo :: string
  req_maxTimeoutSeconds :: nat
  req_asset :: string

text \<open>\<^verbatim>\<open>Partial<PaymentServerConfig>\<close>, and \<^verbatim>\<open>overrides?.f ?? this.config.f\<close>.\<close>

record PaymentOverrides =
  ov_payTo :: "string option"
  ov_amount :: "string option"
  ov_asset :: "string option"
  ov_network :: "string option"
  ov_description :: "string option"
  ov_maxTimeoutSeconds :: "nat option"

definition overridden :: "PaymentOverrides option \<Rightarrow> (PaymentOverrides \<Rightarrow> 'a option) \<Rightarrow> 'a \<Rightarrow> 'a" where
  "overridden overrides f d =
     (case overrides of
        None \<Rightarrow> d
      | Some ov \<Rightarrow> (case f ov of None \<Rightarrow> d | Some v \<Rightarrow> v))"

definition buildRequirements ::
  "PaymentServer \<Rightarrow> string \<Rightarrow> PaymentOverrides option \<Rightarrow> PaymentRequirements" where
  "buildRequirements this resource overrides =
     \<lparr>req_scheme = ''exact'',
      req_network = overridden overrides ov_network (network this),
      req_maxAmountRequired = overridden overrides ov_amount (amount this),
      req_resource = resource,
      req_description = overridden overrides ov_description (description this),
      req_payTo = overridden overrides ov_payTo (payTo this),
      req_maxTimeoutSeconds = maxTimeoutSeconds this,
      req_asset = overridden overrides ov_asset (asset this)\<rparr>"

text \<open>The requirements object and the challenge payload as \<^verbatim>\<open>JSON.stringify\<close> sees them.\<close>

definition requirements_json :: "PaymentRequirements \<Rightarrow> json" where
  "requirements_json r =
     JObj [(''scheme'', JStr (req_scheme r)),
           (''network'', JStr (req_network r)),
           (''maxAmountRequired'', JStr (req_maxAmountRequired r)),
           (''resource'', JStr (req_resource r)),
           (''description'', JStr (req_description r)),
           (''payTo'', JStr (req_payTo r)),
           (''maxTimeoutSeconds'', JNum (int (req_maxTimeoutSeconds r))),
           (''asset'', JStr (req_asset r))]"

definition challenge_payload :: "PaymentRequirements \<Rightarrow> json" where
  "challenge_payload r = JObj [(''version'', JNum 2), (''accepts'', JArr [requirements_json r])]"

definition buildRequirementsHeader ::
  "runtime \<Rightarrow> PaymentServer \<Rightarrow> string \<Rightarrow> PaymentOverrides option \<Rightarrow> string" where
  "buildRequirementsHeader rt this resource overrides =
     base64_encode rt
       (JSON_stringify rt (challenge_payload (buildRequirements this resource overrides)))"

text \<open>\<^verbatim>\<open>a?.k\<close> on a value that may be \<^verbatim>\<open>undefined\<close>.\<close>

definition optional_prop :: "json option \<Rightarrow> string \<Rightarrow> json option throws" where
  "optional_prop v k = (if nullish v then Inr None else get_prop (the v) k)"

text \<open>\<^verbatim>\<open>parsePaymentHeader\<close>: every exception inside is caught and gives \<^verbatim>\<open>null\<close>.\<close>

definition parsePaymentHeader ::
  "runtime \<Rightarrow> PaymentServer \<Rightarrow> string option \<Rightarrow> (json \<times> json) option" where
  "parsePaymentHeader rt this header =
     (case header of
        None \<Rightarrow> None
      | Some h \<Rightarrow>
          if h = [] then None
          else (case JSON_parse rt (base64_decode rt h) of
                  Inl e \<Rightarrow> None
                | Inr decoded \<Rightarrow>
                    (case get_prop decoded ''payload'' of
                       Inl e \<Rightarrow> None
                     | Inr p \<Rightarrow>
                    (case get_prop decoded ''network'' of
                       Inl e \<Rightarrow> None
                     | Inr n \<Rightarrow>
                    (case get_prop decoded ''x402Version'' of
                       Inl e \<Rightarrow> None
                     | Inr xv \<Rightarrow>
                    (case optional_prop xv ''network'' of
                       Inl e \<Rightarrow> None
                     | Inr xn \<Rightarrow>
                         Some ((if nullish p then decoded else the p),
                               (if \<not> nullish n then the n
                                else if \<not> nullish xn then the xn
                                else JStr (network this)))))))))"

record PaymentDetails =
  pd_from :: "json option"
  pd_to :: "json option"
  pd_amount :: "json option"
  pd_asset :: "json option"
  pd_network :: json
  pd_timestamp :: nat

record PaymentVerifyResult =
  pv_valid :: bool
  pv_payment :: "PaymentDetails option"
  pv_error :: "string option"

definition invalid_payment :: "string \<Rightarrow> PaymentVerifyResult" where
  "invalid_payment msg = \<lparr>pv_valid = False, pv_payment = None, pv_error = Some msg\<rparr>"

text \<open>\<^verbatim>\<open>typeof v === "object"\<close> for a truthy value.\<close>

fun is_object :: "json option \<Rightarrow> bool" where
  "is_object (Some (JObj kvs)) = True"
| "is_object (Some (JArr vs)) = True"
| "is_object v = False"

text \<open>The \<^verbatim>\<open>try\<close> block of \<^verbatim>\<open>verify\<close>: the structural check of the decoded payload.\<close>

definition verify_try_payload ::
  "runtime \<Rightarrow> PaymentServer \<Rightarrow> json \<Rightarrow> json \<Rightarrow> PaymentVerifyResult throws" where
  "verify_try_payload rt this payload net =
     (case get_prop payload ''authorization'' of
        Inl e \<Rightarrow> Inl e
      | Inr auth \<Rightarrow>
          if truthy auth \<and> is_object auth then
            (case (get_prop (the auth) ''from'', get_prop (the auth) ''to'',
                   get_prop (the auth) ''value'', get_prop (the auth) ''nonce'') of
               (Inr sender, Inr recipient, Inr val, Inr nonce) \<Rightarrow>
                 if \<not> truthy sender \<or> \<not> truthy recipient \<or> \<not> truthy val \<or> \<not> truthy nonce then
                   Inr (invalid_payment ''Invalid EIP-3009 authorization structure'')
                 else
                   Inr \<lparr>pv_valid = True,
                        pv_payment = Some \<lparr>pd_from = sender, pd_to = recipient, pd_amount = val,
                                           pd_asset = Some (JStr (asset this)),
                                           pd_network = net, pd_timestamp = Date_now rt\<rparr>,
                        pv_error = None\<rparr>
             | _ \<Rightarrow> Inl ''Cannot read properties of null'')
          else
            (case get_prop payload ''permit2Authorization'' of
               Inl e \<Rightarrow> Inl e
             | Inr p2 \<Rightarrow>
                 if truthy p2 then
                   (case get_prop (the p2) ''from'' of
                      Inl e \<Rightarrow> Inl e
                    | Inr sender \<Rightarrow>
                   (case get_prop (the p2) ''witness'' of
                      Inl e \<Rightarrow> Inl e
                    | Inr wit \<Rightarrow>
                   (case optional_prop wit ''to'' of
                      Inl e \<Rightarrow> Inl e
                    | Inr recipient \<Rightarrow>
                   (case get_prop (the p2) ''permitted'' of
                      Inl e \<Rightarrow> Inl e
                    | Inr permitted \<Rightarrow>
                   (case (optional_prop permitted ''amount'', optional_prop permitted ''token'') of
                      (Inr amt, Inr token) \<Rightarrow>
                        Inr \<lparr>pv_valid = True,
                             pv_payment = Some \<lparr>pd_from = sender, pd_to = recipient, pd_amount = amt,
                                                pd_asset = token, pd_network = net,
                                                pd_timestamp = Date_now rt\<rparr>,
                             pv_error = None\<rparr>
                    | _ \<Rightarrow> Inl ''Cannot read properties of null'')))))
                 else Inr (invalid_payment ''Unrecognized payment payload format'')))"

text \<open>\<^verbatim>\<open>verify\<close> on a request whose \<^verbatim>\<open>x-payment\<close> header is the given value.\<close>

definition verify :: "runtime \<Rightarrow> PaymentServer \<Rightarrow> string option \<Rightarrow> PaymentVerifyResult" where
  "verify rt this paymentHeader =
     (if paymentHeader = None \<or> paymentHeader = Some [] then
        invalid_payment ''Missing X-PAYMENT header. This endpoint requires x402 payment.''
      else (case parsePaymentHeader rt this paymentHeader of
              None \<Rightarrow> invalid_payment ''Invalid X-PAYMENT header format''
            | Some (payload, net) \<Rightarrow>
                (case verify_try_payload rt this payload net of
                   Inl e \<Rightarrow> invalid_payment (''Payment verification error: '' @ e)
                 | Inr result \<Rightarrow> result)))"

section \<open>The MCP server\<close>

record IdentityResourceConfig =
  idc_chainId :: number
  idc_agentId :: number
  idc_registry :: "string option"
  idc_rpc :: "string option"

text \<open>\<^verbatim>\<open>payment?: PaymentServerConfig & { freeTools?: string[] }\<close>.\<close>

record PaymentConfig = PaymentServerConfig +
  freeTools :: "string list option"

record AgentMcpServerConfig =
  srv_name :: string
  srv_version :: string
  srv_identity :: "IdentityResourceConfig option"
  srv_payment :: "PaymentConfig option"
  srv_port :: "nat option"
  srv_cors :: "bool option"

text \<open>The instance: the configuration with port and CORS defaulted, the payment server
  when payment is configured, and the table \<^verbatim>\<open>tools\<close> of \<^verbatim>\<open>requiresPayment\<close> flags.\<close>

record AgentMcpServerInstance =
  config :: AgentMcpServerConfig
  port :: nat
  cors :: bool
  paymentServer :: "PaymentServer option"
  tools :: "string \<rightharpoonup> bool"

definition createAgentMcpServer :: "AgentMcpServerConfig \<Rightarrow> AgentMcpServerInstance" where
  "createAgentMcpServer cfg =
     \<lparr>config = cfg,
      port = (case srv_port cfg of Some p \<Rightarrow> p | None \<Rightarrow> 3000),
      cors = (case srv_cors cfg of Some c \<Rightarrow> c | None \<Rightarrow> True),
      paymentServer =
        (case srv_payment cfg of
           None \<Rightarrow> None
         | Some pay \<Rightarrow>
             Some (new_PaymentServer
                    \<lparr>cfg_payTo = cfg_payTo pay,
                     cfg_amount = cfg_amount pay,
                     cfg_asset = Some (case cfg_asset pay of Some a \<Rightarrow> a | None \<Rightarrow> USDC_BASE),
                     cfg_network =
                       Some (case cfg_network pay of Some n \<Rightarrow> n | None \<Rightarrow> DEFAULT_NETWORK),
                     cfg_description =
                       Some (case cfg_description pay of
                               Some d \<Rightarrow> d | None \<Rightarrow> srv_name cfg @ '' MCP service''),
                     cfg_maxTimeoutSeconds = cfg_maxTimeoutSeconds pay\<rparr>)),
      tools = Map.empty\<rparr>"

text \<open>\<^verbatim>\<open>tool(name, ...)\<close>: records whether the tool requires payment, then registers it
  with the engine.\<close>

definition tool :: "AgentMcpServerInstance \<Rightarrow> string \<Rightarrow> AgentMcpServerInstance" where
  "tool this name =
     (let free = (case srv_payment (config this) of
                    None \<Rightarrow> [''ping'']
                  | Some pay \<Rightarrow> (case freeTools pay of Some l \<Rightarrow> l | None \<Rightarrow> [''ping'']))
      in this\<lparr>tools := (tools this)(name \<mapsto>
                  (srv_payment (config this) \<noteq> None \<and> name \<notin> set free))\<rparr>)"

text \<open>
  An inbound request, as far as the handler of \<^verbatim>\<open>listen\<close> reads it: method, URL and
  three headers. The handler never reads the body; \<open>tool_called\<close> is the tool a
  \<^verbatim>\<open>tools/call\<close> body names.
\<close>

record request =
  http_method :: string
  http_url :: string
  host_header :: "string option"
  x_payment :: "string option"
  mcp_session_id :: "string option"
  tool_called :: "string option"

text \<open>A response written by the handler itself; the body is the object handed to
  \<^verbatim>\<open>JSON.stringify\<close>.\<close>

record http_reply =
  reply_status :: nat
  reply_headers :: "(string \<times> string) list"
  reply_body :: "json option"

text \<open>The handler answers itself, or hands the request to \<^verbatim>\<open>handleRequest\<close> of an engine
  transport, or an awaited call throws: the handler has no \<^verbatim>\<open>catch\<close>, so its promise rejects
  with that error and it writes no response.\<close>

datatype outcome = Reply http_reply | Forward nat | Rejected string

text \<open>
  The state of \<^verbatim>\<open>listen\<close>: the map \<^verbatim>\<open>transports\<close> from session id to transport, the
  \<^verbatim>\<open>onclose\<close> callback of each transport (the session id its closure deletes), the
  transports connected to the engine, those that have closed, and the next fresh transport.
\<close>

record server_state =
  transports :: "string \<rightharpoonup> nat"
  onclose :: "nat \<rightharpoonup> string"
  connected :: "nat list"
  closed :: "nat list"
  next_transport :: nat

definition initial_state :: server_state where
  "initial_state =
     \<lparr>transports = Map.empty, onclose = Map.empty, connected = [], closed = [],
      next_transport = 0\<rparr>"

definition cors_headers :: "AgentMcpServerInstance \<Rightarrow> (string \<times> string) list" where
  "cors_headers this =
     (if cors this then
        [(''Access-Control-Allow-Origin'', ''*''),
         (''Access-Control-Allow-Methods'', ''GET, POST, DELETE, OPTIONS''),
         (''Access-Control-Allow-Headers'',
          ''Content-Type, MCP-Session-Id, X-PAYMENT, X-PAYMENT-REQUIRED'')]
      else [])"

definition not_found_reply :: "AgentMcpServerInstance \<Rightarrow> http_reply" where
  "not_found_reply this =
     \<lparr>reply_status = 404,
      reply_headers = cors_headers this @ [(''Content-Type'', ''application/json'')],
      reply_body = Some (JObj [(''error'', JStr ''Not found''),
                               (''hint'', JStr ''MCP endpoint is at /mcp'')])\<rparr>"

definition payment_required_reply ::
  "runtime \<Rightarrow> AgentMcpServerInstance \<Rightarrow> PaymentServer \<Rightarrow> request \<Rightarrow> http_reply" where
  "payment_required_reply rt this ps req =
     (let requirementsHeader =
            buildRequirementsHeader rt ps
              (''https://'' @ (case host_header req of Some h \<Rightarrow> h | None \<Rightarrow> ''localhost'') @
               http_url req) None;
          pay = the (srv_payment (config this))
      in \<lparr>reply_status = 402,
          reply_headers = cors_headers this @
            [(''Content-Type'', ''application/json''),
             (''X-PAYMENT-REQUIRED'', requirementsHeader)],
          reply_body = Some (JObj
            [(''error'', JStr ''Payment Required''),
             (''message'', JStr (''This MCP server requires x402 payment. '' @
                ''Use a payment-capable client or pay '' @ cfg_amount pay @ '' USDC on '' @
                (case cfg_network pay of Some n \<Rightarrow> n | None \<Rightarrow> DEFAULT_NETWORK) @ ''.''))])\<rparr>)"

definition invalid_payment_reply :: "AgentMcpServerInstance \<Rightarrow> string option \<Rightarrow> http_reply" where
  "invalid_payment_reply this err =
     \<lparr>reply_status = 402,
      reply_headers = cors_headers this @ [(''Content-Type'', ''application/json'')],
      reply_body = Some (JObj
        ([(''error'', JStr ''Invalid Payment'')] @ optional_field ''message'' err JStr))\<rparr>"

definition bad_request_reply :: "AgentMcpServerInstance \<Rightarrow> http_reply" where
  "bad_request_reply this =
     \<lparr>reply_status = 400,
      reply_headers = cors_headers this @ [(''Content-Type'', ''application/json'')],
      reply_body = Some (JObj [(''error'', JStr ''Bad Request''),
                               (''message'', JStr ''Missing MCP-Session-Id'')])\<rparr>"

text \<open>The payment check of the handler: the reply that ends the request, or \<open>None\<close> when
  the request goes on to the session lookup.\<close>

definition payment_gate ::
  "runtime \<Rightarrow> AgentMcpServerInstance \<Rightarrow> request \<Rightarrow> http_reply option" where
  "payment_gate rt this req =
     (case paymentServer this of
        None \<Rightarrow> None
      | Some ps \<Rightarrow>
          if http_method req \<noteq> ''POST'' then None
          else if x_payment req = None \<or> x_payment req = Some [] then
            Some (payment_required_reply rt this ps req)
          else (let payResult = verify rt ps (x_payment req)
                in if \<not> pv_valid payResult
                   then Some (invalid_payment_reply this (pv_error payResult))
                   else None))"

text \<open>
  The session lookup; \<open>uuid\<close> is what \<^verbatim>\<open>randomUUID()\<close> returns if it is called. A new
  session is entered in \<^verbatim>\<open>transports\<close> and gets its \<^verbatim>\<open>onclose\<close> callback before
  \<^verbatim>\<open>await this.mcp.connect(transport)\<close>; when that call throws, the entry stays and the
  request is not handed on.
\<close>

definition session_lookup ::
  "runtime \<Rightarrow> AgentMcpServerInstance \<Rightarrow> string \<Rightarrow> server_state \<Rightarrow> request \<Rightarrow>
   server_state \<times> outcome" where
  "session_lookup rt this uuid st req =
     (let sessionId = mcp_session_id req;
          present = (sessionId \<noteq> None \<and> sessionId \<noteq> Some [])
      in if present \<and> the sessionId \<in> dom (transports st) then
           (st, Forward (the (transports st (the sessionId))))
         else if \<not> present \<and> http_method req = ''POST'' then
           (let t = next_transport st;
                st' = st\<lparr>transports := (transports st)(uuid \<mapsto> t),
                         onclose := (onclose st)(t \<mapsto> uuid),
                         next_transport := Suc t\<rparr>
            in case mcp_connect rt (connected st) (closed st) of
                 Inl e \<Rightarrow> (st', Rejected e)
               | Inr u \<Rightarrow> (st'\<lparr>connected := connected st @ [t]\<rparr>, Forward t))
         else if http_method req = ''GET'' then
           (let t = next_transport st;
                st' = st\<lparr>next_transport := Suc t\<rparr>
            in case mcp_connect rt (connected st) (closed st) of
                 Inl e \<Rightarrow> (st', Rejected e)
               | Inr u \<Rightarrow> (st'\<lparr>connected := connected st @ [t]\<rparr>, Forward t))
         else (st, Reply (bad_request_reply this)))"

text \<open>The request handler that \<^verbatim>\<open>listen\<close> installs.\<close>

definition handle_request ::
  "runtime \<Rightarrow> AgentMcpServerInstance \<Rightarrow> string \<Rightarrow> server_state \<Rightarrow> request \<Rightarrow>
   server_state \<times> outcome" where
  "handle_request rt this uuid st req =
     (if cors this \<and> http_method req = ''OPTIONS'' then
        (st, Reply \<lparr>reply_status = 204, reply_headers = cors_headers this, reply_body = None\<rparr>)
      else if http_url req \<noteq> ''/mcp'' \<and> http_url req \<noteq> ''/'' then
        (st, Reply (not_found_reply this))
      else (case payment_gate rt this req of
              Some reply \<Rightarrow> (st, Reply reply)
            | None \<Rightarrow> session_lookup rt this uuid st req))"

text \<open>A transport signals closure: its \<^verbatim>\<open>onclose\<close> callback, if it has one, deletes the
  session id it was created with.\<close>

definition transport_closed :: "server_state \<Rightarrow> nat \<Rightarrow> server_state" where
  "transport_closed st t =
     (let st' = st\<lparr>closed := closed st @ [t]\<rparr>
      in case onclose st t of
           None \<Rightarrow> st'
         | Some sid \<Rightarrow> st'\<lparr>transports := (transports st)(sid := None)\<rparr>)"

text \<open>What happens to the server: a request arrives (with the value \<^verbatim>\<open>randomUUID\<close> would
  return), or a transport closes.\<close>

datatype event = Request string request | Closed nat

fun step :: "runtime \<Rightarrow> AgentMcpServerInstance \<Rightarrow> server_state \<Rightarrow> event \<Rightarrow> server_state" where
  "step rt this st (Request uuid req) = fst (handle_request rt this uuid st req)"
| "step rt this st (Closed t) = transport_closed st t"

definition run :: "runtime \<Rightarrow> AgentMcpServerInstance \<Rightarrow> server_state \<Rightarrow> event list \<Rightarrow> server_state" where
  "run rt this st evs = foldl (step rt this) st evs"

section \<open>The payment client\<close>

text \<open>An HTTP exchange as the client's \<^verbatim>\<open>fetch\<close> sees it.\<close>

record client_request =
  cr_url :: string
  cr_x_payment :: "string option"

record client_response =
  rs_status :: nat
  rs_x_payment_required :: "string option"
  rs_body :: string

type_synonym fetch_fn = "client_request \<Rightarrow> client_response"

record PaymentClientConfig =
  account :: string
  chains :: "string list option"
  maxAmountPerRequest :: "string option"

text \<open>The constructor fills in the defaults.\<close>

definition new_PaymentClient :: "PaymentClientConfig \<Rightarrow> PaymentClientConfig" where
  "new_PaymentClient cfg =
     cfg\<lparr>chains := Some (case chains cfg of Some c \<Rightarrow> c | None \<Rightarrow> [''eip155:*'']),
         maxAmountPerRequest :=
           Some (case maxAmountPerRequest cfg of Some m \<Rightarrow> m | None \<Rightarrow> DEFAULT_MAX_AMOUNT)\<rparr>"

text \<open>
  \<^verbatim>\<open>getPaidFetch\<close>: one scheme registration (network, signer) per configured chain, handed
  with the global \<^verbatim>\<open>fetch\<close> to \<^verbatim>\<open>wrapFetchWithPaymentFromConfig\<close> of the x402 library,
  which is a parameter here. The getter \<^verbatim>\<open>fetch\<close> of the client calls the result.
\<close>

type_synonym scheme_registration = "string \<times> string"

definition getPaidFetch ::
  "(fetch_fn \<Rightarrow> scheme_registration list \<Rightarrow> fetch_fn) \<Rightarrow> fetch_fn \<Rightarrow> PaymentClientConfig \<Rightarrow> fetch_fn" where
  "getPaidFetch wrapFetchWithPaymentFromConfig global_fetch this =
     (let schemes = map (\<lambda>net. (net, account this)) (the (chains this))
      in wrapFetchWithPaymentFromConfig global_fetch schemes)"

definition client_fetch ::
  "(fetch_fn \<Rightarrow> scheme_registration list \<Rightarrow> fetch_fn) \<Rightarrow> fetch_fn \<Rightarrow> PaymentClientConfig \<Rightarrow> fetch_fn" where
  "client_fetch wrapFetchWithPaymentFromConfig global_fetch this input =
     getPaidFetch wrapFetchWithPaymentFromConfig global_fetch this input"

text \<open>The transport fetch of \<^verbatim>\<open>createAgentMcpClient\<close>: the payer's fetch when a payer is
  configured with \<^verbatim>\<open>{account, maxAmount?}\<close>, the global \<^verbatim>\<open>fetch\<close> otherwise.\<close>

definition transportFetch ::
  "(fetch_fn \<Rightarrow> scheme_registration list \<Rightarrow> fetch_fn) \<Rightarrow> fetch_fn \<Rightarrow>
   (string \<times> string option) option \<Rightarrow> fetch_fn" where
  "transportFetch wrapFetchWithPaymentFromConfig global_fetch payer =
     (case payer of
        None \<Rightarrow> global_fetch
      | Some (acct, maxAmount) \<Rightarrow>
          client_fetch wrapFetchWithPaymentFromConfig global_fetch
            (new_PaymentClient \<lparr>account = acct, chains = None, maxAmountPerRequest = maxAmount\<rparr>))"

section \<open>A reference runtime\<close>

text \<open>
  Executable stand-ins for the library functions of the runtime, used to run the model on
  concrete inputs: standard base64 over bytes, compact JSON text for the values of
  \<^typ>\<open>json\<close>, and percent-decoding.
\<close>

definition base64_alphabet :: string where
  "base64_alphabet = ''ABCDEFGHIJKLMNOPQRSTUVWXYZabcdefghijklmnopqrstuvwxyz0123456789+/''"

definition sextet_char :: "nat \<Rightarrow> char" where
  "sextet_char i = base64_alphabet ! i"

fun base64_groups :: "nat list \<Rightarrow> string" where
  "base64_groups (a # b # c # r) =
     [sextet_char (a div 4), sextet_char ((a mod 4) * 16 + b div 16),
      sextet_char ((b mod 16) * 4 + c div 64), sextet_char (c mod 64)] @ base64_groups r"
| "base64_groups [a, b] =
     [sextet_char (a div 4), sextet_char ((a mod 4) * 16 + b div 16),
      sextet_char ((b mod 16) * 4), CHR ''='']"
| "base64_groups [a] =
     [sextet_char (a div 4), sextet_char ((a mod 4) * 16), CHR ''='', CHR ''='']"
| "base64_groups [] = []"

definition base64_encode_impl :: "string \<Rightarrow> string" where
  "base64_encode_impl s = base64_groups (map of_char s)"

definition sextet_of :: "char \<Rightarrow> nat option" where
  "sextet_of c = (let n = (of_char c :: nat) in
     if 65 \<le> n \<and> n \<le> 90 then Some (n - 65)
     else if 97 \<le> n \<and> n \<le> 122 then Some (n - 71)
     else if 48 \<le> n \<and> n \<le> 57 then Some (n + 4)
     else if n = 43 \<or> n = 45 then Some 62
     else if n = 47 \<or> n = 95 then Some 63
     else None)"

fun base64_bytes :: "nat list \<Rightarrow> nat list" where
  "base64_bytes (a # b # c # d # r) =
     [a * 4 + b div 16, (b mod 16) * 16 + c div 4, (c mod 4) * 64 + d] @ base64_bytes r"
| "base64_bytes [a, b, c] = [a * 4 + b div 16, (b mod 16) * 16 + c div 4]"
| "base64_bytes [a, b] = [a * 4 + b div 16]"
| "base64_bytes r = []"

definition base64_decode_impl :: "string \<Rightarrow> string" where
  "base64_decode_impl s =
     map char_of
       (base64_bytes (List.map_filter sextet_of (takeWhile (\<lambda>c. c \<noteq> CHR ''='') s)))"

fun json_escape :: "string \<Rightarrow> string" where
  "json_escape [] = []"
| "json_escape (c # cs) =
     (if c = CHR 0x22 then [CHR 0x5C, CHR 0x22]
      else if c = CHR 0x5C then [CHR 0x5C, CHR 0x5C]
      else if c = CHR 0x0A then [CHR 0x5C, CHR ''n'']
      else [c]) @ json_escape cs"

definition json_quote :: "string \<Rightarrow> string" where
  "json_quote s = [CHR 0x22] @ json_escape s @ [CHR 0x22]"

fun json_stringify_impl :: "json \<Rightarrow> string"
  and stringify_elements :: "json list \<Rightarrow> string"
  and stringify_members :: "(string \<times> json) list \<Rightarrow> string" where
  "json_stringify_impl JNull = ''null''"
| "json_stringify_impl (JBool b) = (if b then ''true'' else ''false'')"
| "json_stringify_impl (JNum n) = (if n < 0 then ''-'' @ show_nat (nat (- n)) else show_nat (nat n))"
| "json_stringify_impl (JStr s) = json_quote s"
| "json_stringify_impl (JArr vs) = ''['' @ stringify_elements vs @ '']''"
| "json_stringify_impl (JObj kvs) = ''{'' @ stringify_members kvs @ ''}''"
| "stringify_elements [] = []"
| "stringify_elements [v] = json_stringify_impl v"
| "stringify_elements (v # w # vs) = json_stringify_impl v @ '','' @ stringify_elements (w # vs)"
| "stringify_members [] = []"
| "stringify_members [(k, v)] = json_quote k @ '':'' @ json_stringify_impl v"
| "stringify_members ((k, v) # m # kvs) =
     json_quote k @ '':'' @ json_stringify_impl v @ '','' @ stringify_members (m # kvs)"

text \<open>The parser reads a string literal up to its closing quote, then a value by
  recursive descent; the fuel bounds the nesting and is the length of the text.\<close>

fun parse_string_body :: "string \<Rightarrow> (string \<times> string) option" where
  "parse_string_body [] = None"
| "parse_string_body (c # cs) =
     (if c = CHR 0x22 then Some ([], cs)
      else if c = CHR 0x5C then
        (case cs of
           [] \<Rightarrow> None
         | e # r \<Rightarrow>
             (case parse_string_body r of
                None \<Rightarrow> None
              | Some (s, rest) \<Rightarrow>
                  if e = CHR ''n'' then Some (CHR 0x0A # s, rest)
                  else if e = CHR 0x22 \<or> e = CHR 0x5C \<or> e = CHR ''/'' then Some (e # s, rest)
                  else None))
      else (case parse_string_body cs of
              None \<Rightarrow> None
            | Some (s, rest) \<Rightarrow> Some (c # s, rest)))"

definition skip_space :: "string \<Rightarrow> string" where
  "skip_space s = dropWhile (\<lambda>c. c = CHR '' '' \<or> c = CHR 0x0A \<or> c = CHR 0x0D \<or> c = CHR 0x09) s"

fun parse_value :: "nat \<Rightarrow> string \<Rightarrow> (json \<times> string) option"
  and parse_elements :: "nat \<Rightarrow> json list \<Rightarrow> string \<Rightarrow> (json \<times> string) option"
  and parse_members :: "nat \<Rightarrow> (string \<times> json) list \<Rightarrow> string \<Rightarrow> (json \<times> string) option" where
  "parse_value 0 s = None"
| "parse_value (Suc n) s =
     (let t = skip_space s in
      if startsWith t ''null'' then Some (JNull, skip_space (drop 4 t))
      else if startsWith t ''true'' then Some (JBool True, skip_space (drop 4 t))
      else if startsWith t ''false'' then Some (JBool False, skip_space (drop 5 t))
      else (case t of
              [] \<Rightarrow> None
            | c # r \<Rightarrow>
                if c = CHR 0x22 then
                  (case parse_string_body r of
                     None \<Rightarrow> None
                   | Some (str, rest) \<Rightarrow> Some (JStr str, skip_space rest))
                else if c = CHR ''['' then
                  (if startsWith (skip_space r) '']''
                   then Some (JArr [], skip_space (drop 1 (skip_space r)))
                   else parse_elements n [] r)
                else if c = CHR ''{'' then
                  (if startsWith (skip_space r) ''}''
                   then Some (JObj [], skip_space (drop 1 (skip_space r)))
                   else parse_members n [] r)
                else if c = CHR ''-'' \<and> takeWhile is_digit r \<noteq> [] then
                  Some (JNum (- int (digits_value (takeWhile is_digit r))),
                        skip_space (dropWhile is_digit r))
                else if is_digit c then
                  Some (JNum (int (digits_value (takeWhile is_digit t))),
                        skip_space (dropWhile is_digit t))
                else None))"
| "parse_elements 0 acc s = None"
| "parse_elements (Suc n) acc s =
     (case parse_value n s of
        None \<Rightarrow> None
      | Some (v, rest) \<Rightarrow>
          (case rest of
             [] \<Rightarrow> None
           | c # r \<Rightarrow>
               if c = CHR '','' then parse_elements n (acc @ [v]) r
               else if c = CHR '']'' then Some (JArr (acc @ [v]), skip_space r)
               else None))"
| "parse_members 0 acc s = None"
| "parse_members (Suc n) acc s =
     (case skip_space s of
        [] \<Rightarrow> None
      | q # r \<Rightarrow>
          if q \<noteq> CHR 0x22 then None
          else (case parse_string_body r of
                  None \<Rightarrow> None
                | Some (k, rest) \<Rightarrow>
                    (case skip_space rest of
                       [] \<Rightarrow> None
                     | c # r2 \<Rightarrow>
                         if c \<noteq> CHR '':'' then None
                         else (case parse_value n r2 of
                                 None \<Rightarrow> None
                               | Some (v, rest2) \<Rightarrow>
                                   (case rest2 of
                                      [] \<Rightarrow> None
                                    | d # r3 \<Rightarrow>
                                        if d = CHR '','' then parse_members n (acc @ [(k, v)]) r3
                                        else if d = CHR ''}''
                                        then Some (JObj (acc @ [(k, v)]), skip_space r3)
                                        else None)))))"

definition json_parse_impl :: "string \<Rightarrow> json throws" where
  "json_parse_impl s =
     (case parse_value (Suc (length s)) s of
        Some (v, []) \<Rightarrow> Inr v
      | _ \<Rightarrow> Inl ''Unexpected token in JSON'')"

definition hex_value :: "char \<Rightarrow> nat option" where
  "hex_value c = (let n = (of_char c :: nat) in
     if 48 \<le> n \<and> n \<le> 57 then Some (n - 48)
     else if 97 \<le> n \<and> n \<le> 102 then Some (n - 87)
     else if 65 \<le> n \<and> n \<le> 70 then Some (n - 55)
     else None)"

fun percent_decode :: "string \<Rightarrow> string throws" where
  "percent_decode [] = Inr []"
| "percent_decode (c # cs) =
     (if c = CHR ''%'' then
        (case cs of
           h # l # r \<Rightarrow>
             (case (hex_value h, hex_value l) of
                (Some x, Some y) \<Rightarrow> map_sum id ((#) (char_of (16 * x + y))) (percent_decode r)
              | _ \<Rightarrow> Inl ''URI malformed'')
         | _ \<Rightarrow> Inl ''URI malformed'')
      else map_sum id ((#) c) (percent_decode cs))"

text \<open>An engine that serves one transport at a time: \<^verbatim>\<open>connect\<close> throws while a transport
  connected before has not closed.\<close>

definition single_transport_connect :: "nat list \<Rightarrow> nat list \<Rightarrow> unit throws" where
  "single_transport_connect connected_before closed_before =
     (if list_ex (\<lambda>t. t \<notin> set closed_before) connected_before
      then Inl (''Already connected to a transport. Call close() before connecting to a '' @
                ''new transport, or use a separate Protocol instance per connection.'')
      else Inr ())"

text \<open>The reference runtime over a given ledger, a given network and a given clock reading.\<close>

definition reference_runtime ::
  "(string \<Rightarrow> string \<Rightarrow> string \<Rightarrow> nat \<Rightarrow> string throws) \<Rightarrow> (string \<Rightarrow> http_response throws) \<Rightarrow>
   nat \<Rightarrow> runtime" where
  "reference_runtime ledger net now =
     \<lparr>readContract = ledger, fetch = net, JSON_parse = json_parse_impl,
      JSON_stringify = json_stringify_impl, base64_decode = base64_decode_impl,
      base64_encode = base64_encode_impl, decodeURIComponent = percent_decode,
      Date_now = now, mcp_connect = single_transport_connect\<rparr>"

text \<open>A network with no reachable host.\<close>

definition offline :: "string \<Rightarrow> http_response throws" where
  "offline url = Inl ''fetch failed''"

section \<open>Notions of the specification\<close>

text \<open>
  A global reference string assembled from its parts: the digits of the chain id, the hex
  digits of the registry address, the separator before the local id, and the digits of the
  local id.
\<close>

definition global_id_string :: "string \<Rightarrow> string \<Rightarrow> char \<Rightarrow> string \<Rightarrow> string" where
  "global_id_string c h sep a = ''eip155:'' @ c @ '':0x'' @ h @ [sep] @ a"

definition well_formed_reference :: "string \<Rightarrow> string \<Rightarrow> char \<Rightarrow> string \<Rightarrow> bool" where
  "well_formed_reference c h sep a =
     (c \<noteq> [] \<and> list_all is_digit c \<and> h \<noteq> [] \<and> list_all is_hex h \<and>
      (sep = CHR ''#'' \<or> sep = CHR ''/'') \<and> a \<noteq> [] \<and> list_all is_digit a)"

text \<open>A decimal numeral as a number prints: no leading zero unless it is \<open>0\<close> itself.\<close>

definition canonical_digits :: "string \<Rightarrow> bool" where
  "canonical_digits ds =
     (ds \<noteq> [] \<and> list_all is_digit ds \<and> (ds = ''0'' \<or> hd ds \<noteq> CHR ''0''))"




text \<open>
  Every step of a verification succeeds: the chain of the reference has a configured
  endpoint, the local id is an integer, the three ledger reads return, the registration
  record is fetched and parsed, and the back-reference test finds an entry.
\<close>

definition reads_and_record_succeed :: "runtime \<Rightarrow> string \<Rightarrow> AgentRef \<Rightarrow> bool" where
  "reads_and_record_succeed rt url ref =
     (\<exists>n own wallet uri reg.
        agentId ref = Finite n \<and>
        readContract rt url (registry ref) ''ownerOf'' n = Inr own \<and>
        readContract rt url (registry ref) ''getAgentWallet'' n = Inr wallet \<and>
        readContract rt url (registry ref) ''tokenURI'' n = Inr uri \<and>
        snd (fetchRegistrationFile rt uri DEFAULT_IPFS_GATEWAY) = Inr reg \<and>
        hasBackref ref (registryPrefix_of ref) reg = Inr True)"

definition all_steps_succeed :: "runtime \<Rightarrow> AgentRef \<Rightarrow> bool" where
  "all_steps_succeed rt ref =
     (\<exists>c chain.
        chainId ref = Finite c \<and> SUPPORTED_CHAINS c = Some chain \<and> rpc chain \<noteq> [] \<and>
        reads_and_record_succeed rt (rpc chain) ref)"

text \<open>A ledger that answers the three reads of \<^verbatim>\<open>verifyAgent\<close> with fixed values.\<close>

definition fixed_ledger ::
  "string \<Rightarrow> string \<Rightarrow> string \<Rightarrow> string \<Rightarrow> string \<Rightarrow> string \<Rightarrow> nat \<Rightarrow> string throws" where
  "fixed_ledger own wallet uri rpcUrl address functionName tokenId =
     (if functionName = ''ownerOf'' then Inr own
      else if functionName = ''getAgentWallet'' then Inr wallet
      else if functionName = ''tokenURI'' then Inr uri
      else Inl ''unknown function'')"

text \<open>The runtime's codecs give back a value they encoded: base64 its JSON text, and
  \<^verbatim>\<open>JSON.parse\<close> the value.\<close>

definition codec_roundtrip :: "runtime \<Rightarrow> json \<Rightarrow> bool" where
  "codec_roundtrip rt v =
     (base64_decode rt (base64_encode rt (JSON_stringify rt v)) = JSON_stringify rt v \<and>
      JSON_parse rt (JSON_stringify rt v) = Inr v)"

text \<open>The back-reference of an identity for a local id: the entry
  \<^verbatim>\<open>{agentId, agentRegistry: "eip155:<chainId>:<registry>"}\<close>.\<close>

definition own_entry :: "AgentIdentity \<Rightarrow> nat \<Rightarrow> json" where
  "own_entry this aid =
     JObj [(''agentId'', JNum (int aid)),
           (''agentRegistry'',
            JStr (''eip155:'' @ Number_toString (Finite (chain_id this)) @ '':'' @
                  this_registry this))]"

text \<open>Reading a decoded JSON document: the field of an object, the element of an array.\<close>

definition json_field :: "string \<Rightarrow> json \<Rightarrow> json option" where
  "json_field k v = (case v of JObj kvs \<Rightarrow> map_of kvs k | _ \<Rightarrow> None)"

definition json_element :: "nat \<Rightarrow> json \<Rightarrow> json option" where
  "json_element i v =
     (case v of JArr vs \<Rightarrow> (if i < length vs then Some (vs ! i) else None) | _ \<Rightarrow> None)"

text \<open>
  The free list of a server: the configured \<^verbatim>\<open>freeTools\<close>, by default the single tool
  \<open>ping\<close>. A request is guarded when it calls a tool that is not on the free list.
\<close>

definition free_list :: "AgentMcpServerInstance \<Rightarrow> string list" where
  "free_list this =
     (case srv_payment (config this) of
        None \<Rightarrow> [''ping'']
      | Some pay \<Rightarrow> (case freeTools pay of Some l \<Rightarrow> l | None \<Rightarrow> [''ping'']))"

definition guarded :: "AgentMcpServerInstance \<Rightarrow> request \<Rightarrow> bool" where
  "guarded this req =
     (case tool_called req of
        None \<Rightarrow> False
      | Some name \<Rightarrow> name \<notin> set (free_list this))"

text \<open>The resource a challenge names for a request: the URL built from the \<^verbatim>\<open>Host\<close>
  header and the requested path.\<close>

definition challenge_resource :: "request \<Rightarrow> string" where
  "challenge_resource req =
     ''https://'' @ (case host_header req of Some h \<Rightarrow> h | None \<Rightarrow> ''localhost'') @ http_url req"

section \<open>Sample inputs\<close>

text \<open>A reference on Base, an owner, and registration records as data URIs: one that lists
  another local id only, and the runtime whose ledger serves it.\<close>

definition sample_global_id :: string where
  "sample_global_id = ''eip155:8453:0x8004A169FB4a3325136EB29fA0ceB6D2e539a432#2376''"

definition sample_ref :: AgentRef where
  "sample_ref =
     \<lparr>namespace = ''eip155'', chainId = Finite 8453,
      registry = ''0x8004A169FB4a3325136EB29fA0ceB6D2e539a432'', agentId = Finite 2376\<rparr>"

definition sample_owner :: string where
  "sample_owner = ''0x00000000000000000000000000000000000A11CE''"







text \<open>A reference whose local id is not a double, a record that lists the double next to
  it, and the runtime whose ledger serves that record.\<close>

definition large_global_id :: string where
  "large_global_id = ''eip155:8453:0x8004A169FB4a3325136EB29fA0ceB6D2e539a432#9007199254740993''"




text \<open>An identity on Base and the options of a minimal registration.\<close>

definition sample_identity :: AgentIdentity where
  "sample_identity =
     \<lparr>chain_id = 8453, this_registry = ''0x8004A169FB4a3325136EB29fA0ceB6D2e539a432''\<rparr>"

definition sample_options :: RegisterOptions where
  "sample_options =
     \<lparr>opt_name = ''a'', opt_description = ''b'', opt_image = None, opt_services = None,
      opt_x402Support = None, opt_active = None, opt_supportedTrust = None,
      opt_existingRegistrations = None, opt_storage = None, opt_gasLimit = None\<rparr>"

definition plain_runtime :: runtime where
  "plain_runtime = reference_runtime (\<lambda>rpcUrl address functionName tokenId. Inl ''execution reverted'') offline 0"

text \<open>The runtime whose ledger serves the registration that identity builds for the local
  id 2376.\<close>

definition registered_uri :: string where
  "registered_uri =
     ''data:application/json;base64,'' @
     base64_encode_impl
       (json_stringify_impl (registration_file sample_identity sample_options (Some 2376)))"

definition registered_runtime :: runtime where
  "registered_runtime =
     reference_runtime (fixed_ledger sample_owner ZERO_ADDRESS registered_uri) offline 0"

text \<open>A server without payment, a server that charges 0.10 USDC with the default free-tool
  list, and requests to them.\<close>

definition free_server :: AgentMcpServerInstance where
  "free_server =
     createAgentMcpServer
       \<lparr>srv_name = ''demo'', srv_version = ''1.0.0'', srv_identity = None, srv_payment = None,
        srv_port = None, srv_cors = None\<rparr>"

definition paid_config :: PaymentConfig where
  "paid_config =
     \<lparr>cfg_payTo = ''0x00000000000000000000000000000000000A11CE'', cfg_amount = ''100000'',
      cfg_asset = None, cfg_network = None, cfg_description = None,
      cfg_maxTimeoutSeconds = None, freeTools = None\<rparr>"

definition paid_server :: AgentMcpServerInstance where
  "paid_server =
     tool (createAgentMcpServer
       \<lparr>srv_name = ''demo'', srv_version = ''1.0.0'', srv_identity = None,
        srv_payment = Some paid_config, srv_port = None, srv_cors = None\<rparr>) ''get-price''"

definition paid_payment_server :: PaymentServer where
  "paid_payment_server =
     \<lparr>payTo = ''0x00000000000000000000000000000000000A11CE'', amount = ''100000'',
      asset = USDC_BASE, network = ''eip155:8453'', description = ''demo MCP service'',
      maxTimeoutSeconds = 300\<rparr>"

definition post_request :: "string \<Rightarrow> string option \<Rightarrow> string option \<Rightarrow> string option \<Rightarrow> request" where
  "post_request path payment session called =
     \<lparr>http_method = ''POST'', http_url = path, host_header = Some ''agent.example'',
      x_payment = payment, mcp_session_id = session, tool_called = called\<rparr>"

text \<open>The challenge the paying server issues for a POST to \<open>/mcp\<close> on host
  \<open>agent.example\<close>, and a payment header that decodes to \<^verbatim>\<open>{"x":1}\<close>.\<close>

definition sample_challenge :: json where
  "sample_challenge =
     challenge_payload
       (buildRequirements paid_payment_server
          (challenge_resource (post_request ''/mcp'' None None (Some ''get-price''))) None)"

definition unrecognized_header :: string where
  "unrecognized_header = ''eyJ4IjoxfQ==''"

text \<open>A payment header that decodes to a permit-style payload with a sender only:
  \<^verbatim>\<open>{"payload":{"permit2Authorization":{"from":"0xabc"}}}\<close>.\<close>

definition bare_permit_header :: string where
  "bare_permit_header =
     ''eyJwYXlsb2FkIjp7InBlcm1pdDJBdXRob3JpemF0aW9uIjp7ImZyb20iOiIweGFiYyJ9fX0=''"

text \<open>
  A resource server that challenges a call without proof for 0.50 USDC and serves a call
  that carries one, and a stand-in for the x402 wrapper: on a 402 it attaches a proof
  signed for the first registered scheme and re-issues the call once.
\<close>

definition challenging_server :: fetch_fn where
  "challenging_server req =
     (case cr_x_payment req of
        None \<Rightarrow> \<lparr>rs_status = 402,
                 rs_x_payment_required = Some ''maxAmountRequired=500000'',
                 rs_body = ''Payment Required''\<rparr>
      | Some proof \<Rightarrow> \<lparr>rs_status = 200, rs_x_payment_required = None, rs_body = ''price''\<rparr>)"

definition retry_once_wrapper :: "fetch_fn \<Rightarrow> scheme_registration list \<Rightarrow> fetch_fn" where
  "retry_once_wrapper base schemes req =
     (let first = base req
      in if rs_status first = 402 \<and> schemes \<noteq> []
         then base (req\<lparr>cr_x_payment := Some (''proof-signed-by-'' @ snd (hd schemes))\<rparr>)
         else first)"

text \<open>Requests that present a session id: a GET and a DELETE.\<close>

definition session_request :: "string \<Rightarrow> string \<Rightarrow> request" where
  "session_request meth sid =
     \<lparr>http_method = meth, http_url = ''/mcp'', host_header = Some ''agent.example'',
      x_payment = None, mcp_session_id = Some sid, tool_called = None\<rparr>"

section \<open>Evaluation lemmas\<close>

lemma char_of_eval:
  "char_of (n::nat) = Char (odd n) (odd (n div 2)) (odd (n div 4)) (odd (n div 8))
     (odd (n div 16)) (odd (n div 32)) (odd (n div 64)) (odd (n div 128))"
  by (simp add: char_of_def bit_iff_odd)

lemmas string_eval = startsWith_def is_digit_def is_hex_def digits_value_def digit_value_def
  show_nat.simps digit_char_def toLowerCase_def toLowerChar_def char_of_eval Let_def

lemmas number_eval = Number_def to_double_def double_exponent.simps Number_toString_def
  exponent_form_def BigInt_def

lemmas base64_eval = base64_encode_impl_def base64_decode_impl_def sextet_char_def
  base64_alphabet_def sextet_of_def List.map_filter_simps

lemmas json_eval = json_parse_impl_def skip_space_def json_quote_def

lemmas parse_eval = parseAgentId_def match_global_id_def formatAgentId_def

section \<open>Parsing and formatting\<close>

lemma replace_first_absent:
  "x \<notin> set xs \<Longrightarrow> replace_first x y (xs @ ys) = xs @ replace_first x y ys"
  by (induction xs) auto

lemma replace_first_id: "x \<notin> set xs \<Longrightarrow> replace_first x y xs = xs"
  by (induction xs) auto

lemma digit_not_slash: "is_digit c \<Longrightarrow> c \<noteq> CHR ''/''"
  by (auto simp: is_digit_def)

lemma hex_not_slash: "is_hex c \<Longrightarrow> c \<noteq> CHR ''/''"
  by (auto simp: is_hex_def Let_def)

lemma not_digit_colon: "\<not> is_digit CHR '':''"
  by (simp add: is_digit_def)

lemma not_hex_hash: "\<not> is_hex CHR ''#''"
  by (simp add: is_hex_def)

lemma match_global_id_parts:
  assumes "c \<noteq> []" "list_all is_digit c" "h \<noteq> []" "list_all is_hex h"
          "a \<noteq> []" "list_all is_digit a"
  shows "match_global_id (''eip155:'' @ c @ '':0x'' @ h @ ''#'' @ a) = Some (c, ''0x'' @ h, a)"
proof -
  have c: "\<And>x. x \<in> set c \<Longrightarrow> is_digit x" using assms(2) by (simp add: list_all_iff)
  have h: "\<And>x. x \<in> set h \<Longrightarrow> is_hex x" using assms(4) by (simp add: list_all_iff)
  have a: "\<And>x. x \<in> set a \<Longrightarrow> is_digit x" using assms(6) by (simp add: list_all_iff)
  define r5 where "r5 = a"
  define r4 where "r4 = ''#'' @ r5"
  define r3 where "r3 = h @ r4"
  define r2 where "r2 = '':0x'' @ r3"
  define r1 where "r1 = c @ r2"
  define s where "s = ''eip155:'' @ r1"
  have s0: "startsWith s ''eip155:''" by (simp add: s_def startsWith_def)
  have s1: "drop 7 s = r1" by (simp add: s_def)
  have t1: "takeWhile is_digit r1 = c"
    using c by (simp add: r1_def r2_def takeWhile_append2 not_digit_colon)
  have d1: "dropWhile is_digit r1 = r2"
    using c by (simp add: r1_def r2_def dropWhile_append2 not_digit_colon)
  have s2: "startsWith r2 '':0x''" by (simp add: r2_def startsWith_def)
  have s3: "drop 3 r2 = r3" by (simp add: r2_def)
  have t2: "takeWhile is_hex r3 = h"
    using h by (simp add: r3_def r4_def takeWhile_append2 not_hex_hash)
  have d2: "dropWhile is_hex r3 = r4"
    using h by (simp add: r3_def r4_def dropWhile_append2 not_hex_hash)
  have s4: "startsWith r4 ''#''" by (simp add: r4_def startsWith_def)
  have s5: "drop 1 r4 = r5" by (simp add: r4_def)
  have t3: "takeWhile is_digit r5 = a" using a by (simp add: r5_def takeWhile_eq_all_conv)
  have d3: "dropWhile is_digit r5 = []" using a by (simp add: r5_def)
  have "match_global_id s = Some (c, ''0x'' @ h, a)"
    unfolding match_global_id_def Let_def
    by (simp only: s0 s1 t1 d1 s2 s3 t2 d2 s4 s5 t3 d3 assms(1,3,5) simp_thms if_False if_True)
  then show ?thesis
    by (simp add: s_def r1_def r2_def r3_def r4_def r5_def)
qed

lemma normalize_global_id_string:
  assumes "well_formed_reference c h sep a"
  shows "replace_first CHR ''/'' CHR ''#'' (global_id_string c h sep a) =
         global_id_string c h CHR ''#'' a"
proof -
  have c: "CHR ''/'' \<notin> set c" and h: "CHR ''/'' \<notin> set h" and a: "CHR ''/'' \<notin> set a"
    using assms
    by (auto simp: well_formed_reference_def list_all_iff dest: digit_not_slash hex_not_slash)
  have pre: "CHR ''/'' \<notin> set (''eip155:'' @ c @ '':0x'' @ h)"
    using c h by simp
  have "replace_first CHR ''/'' CHR ''#'' ((''eip155:'' @ c @ '':0x'' @ h) @ sep # a) =
        (''eip155:'' @ c @ '':0x'' @ h) @ replace_first CHR ''/'' CHR ''#'' (sep # a)"
    by (rule replace_first_absent[OF pre])
  moreover have "replace_first CHR ''/'' CHR ''#'' (sep # a) = CHR ''#'' # a"
    using assms a by (auto simp: well_formed_reference_def replace_first_id)
  ultimately show ?thesis by (simp add: global_id_string_def)
qed

lemma parseAgentId_well_formed:
  assumes "well_formed_reference c h sep a"
  shows "parseAgentId (global_id_string c h sep a) =
         Inr \<lparr>namespace = ''eip155'', chainId = Number c, registry = ''0x'' @ h,
              agentId = Number a\<rparr>"
proof -
  have m: "match_global_id (global_id_string c h CHR ''#'' a) = Some (c, ''0x'' @ h, a)"
    using match_global_id_parts[of c h a] assms
    by (simp add: well_formed_reference_def global_id_string_def)
  show ?thesis
    by (simp add: parseAgentId_def normalize_global_id_string[OF assms] m)
qed

lemma digits_value_snoc: "digits_value (ds @ [c]) = 10 * digits_value ds + digit_value c"
  by (simp add: digits_value_def)

lemma digit_char_value: "is_digit c \<Longrightarrow> digit_char (digit_value c) = c"
  by (simp add: is_digit_def digit_char_def digit_value_def)

lemma digit_value_lt: "is_digit c \<Longrightarrow> digit_value c < 10"
  by (auto simp: is_digit_def digit_value_def)

lemma digit_value_pos: "is_digit c \<Longrightarrow> c \<noteq> CHR ''0'' \<Longrightarrow> 0 < digit_value c"
proof -
  assume d: "is_digit c" and n: "c \<noteq> CHR ''0''"
  have "(of_char c :: nat) \<noteq> of_char CHR ''0''"
    using n by (simp only: of_char_eq_iff not_False_eq_True)
  then show ?thesis using d by (simp add: is_digit_def digit_value_def)
qed

lemma digits_value_pos:
  "ds \<noteq> [] \<Longrightarrow> list_all is_digit ds \<Longrightarrow> hd ds \<noteq> CHR ''0'' \<Longrightarrow> 0 < digits_value ds"
proof (induction ds rule: rev_induct)
  case Nil
  then show ?case by simp
next
  case (snoc c ds)
  show ?case
  proof (cases "ds = []")
    case True
    then show ?thesis using snoc.prems digit_value_pos[of c] by (simp add: digits_value_def)
  next
    case False
    then have "0 < digits_value ds" using snoc by simp
    then show ?thesis by (simp add: digits_value_snoc)
  qed
qed

lemma show_nat_digits_value: "canonical_digits ds \<Longrightarrow> show_nat (digits_value ds) = ds"
proof (induction ds rule: rev_induct)
  case Nil
  then show ?case by (simp add: canonical_digits_def)
next
  case (snoc c ds)
  have dc: "is_digit c" using snoc.prems by (simp add: canonical_digits_def)
  show ?case
  proof (cases "ds = []")
    case True
    have "digits_value [c] = digit_value c" by (simp add: digits_value_def)
    then show ?thesis using True dc digit_value_lt[OF dc] digit_char_value[OF dc]
      by (simp add: show_nat.simps)
  next
    case False
    have hd: "hd ds \<noteq> CHR ''0''" using snoc.prems False
      by (auto simp: canonical_digits_def)
    have can: "canonical_digits ds" using snoc.prems False hd
      by (simp add: canonical_digits_def)
    have pos: "0 < digits_value ds" using digits_value_pos[OF False _ hd] can
      by (simp add: canonical_digits_def)
    have big: "\<not> digits_value (ds @ [c]) < 10" using pos by (simp add: digits_value_snoc)
    have dv: "(10 * digits_value ds + digit_value c) div 10 = digits_value ds"
      using digit_value_lt[OF dc] by simp
    have md: "(10 * digits_value ds + digit_value c) mod 10 = digit_value c"
      using digit_value_lt[OF dc] by simp
    show ?thesis
      using big snoc.IH[OF can] digit_char_value[OF dc] digit_value_lt[OF dc]
      by (subst show_nat.simps) (simp add: digits_value_snoc dv md)
  qed
qed

lemma show_nat_nonempty: "show_nat n \<noteq> []"
  by (subst show_nat.simps) simp

lemma is_digit_digit_char: "d < 10 \<Longrightarrow> is_digit (digit_char d)"
  by (simp add: is_digit_def digit_char_def)

lemma digit_value_digit_char: "d < 10 \<Longrightarrow> digit_value (digit_char d) = d"
  by (simp add: digit_value_def digit_char_def)

lemma show_nat_digits: "list_all is_digit (show_nat n)"
proof (induction n rule: show_nat.induct)
  case (1 n)
  show ?case
  proof (cases "n < 10")
    case True
    then show ?thesis by (subst show_nat.simps) (simp add: is_digit_digit_char)
  next
    case False
    have m: "n mod 10 < 10" by simp
    show ?thesis
      using False 1 by (subst show_nat.simps) (simp add: is_digit_digit_char[OF m])
  qed
qed

lemma digits_value_show_nat: "digits_value (show_nat n) = n"
proof (induction n rule: show_nat.induct)
  case (1 n)
  show ?case
  proof (cases "n < 10")
    case True
    then show ?thesis
      by (subst show_nat.simps) (simp add: digits_value_def digit_value_digit_char)
  next
    case False
    have m: "n mod 10 < 10" by simp
    have "digits_value (show_nat (n div 10) @ [digit_char (n mod 10)]) = n"
      using 1 False by (simp add: digits_value_snoc digit_value_digit_char[OF m])
    then show ?thesis
      using False by (subst show_nat.simps) simp
  qed
qed

lemma double_exponent_small: "n < 2 ^ 53 \<Longrightarrow> double_exponent n = 0"
  by (subst double_exponent.simps) simp

lemma to_double_small: "n < 2 ^ 53 \<Longrightarrow> to_double n = Finite n"
proof -
  assume n: "n < 2 ^ 53"
  have "(2::nat) ^ 53 \<le> 2 ^ 1024" by (rule power_increasing) simp_all
  then have "\<not> (2::nat) ^ 1024 \<le> n" using n by linarith
  then show ?thesis
    by (simp add: to_double_def double_exponent_small[OF n])
qed

lemma to_double_limit: "to_double (2 ^ 53) = Finite (2 ^ 53)"
  by (simp add: to_double_def double_exponent.simps)

lemma to_double_exact: "n \<le> 2 ^ 53 \<Longrightarrow> to_double n = Finite n"
  using to_double_small[of n] to_double_limit by (cases "n = 2 ^ 53") simp_all

lemma Number_toString_exact: "n \<le> 2 ^ 53 \<Longrightarrow> Number_toString (Finite n) = show_nat n"
  by (simp add: Number_toString_def)

lemma well_formed_printed:
  assumes "well_formed_reference c h sep a"
  shows "well_formed_reference (show_nat m) h CHR ''#'' (show_nat k)"
  using assms by (simp add: well_formed_reference_def show_nat_nonempty show_nat_digits)

lemma large_id_value: "digits_value ''9007199254740993'' = 9007199254740993"
  by (simp add: digits_value_def digit_value_def)

lemma large_id_Number: "Number ''9007199254740993'' = Finite 9007199254740992"
  by (simp add: Number_def large_id_value to_double_def double_exponent.simps)

lemma sample_chain_Number: "Number ''8453'' = Finite 8453"
  by (simp add: Number_def digits_value_def digit_value_def to_double_small)

lemma sample_chain_text: "Number_toString (Finite 8453) = ''8453''"
  by (simp add: Number_toString_def show_nat.simps digit_char_def char_of_eval)

lemma sample_agent_text: "Number_toString (Finite 2376) = ''2376''"
  by (simp add: Number_toString_def show_nat.simps digit_char_def char_of_eval)

lemma large_id_text: "Number_toString (Finite 9007199254740992) = ''9007199254740992''"
  by (simp add: Number_toString_def show_nat.simps digit_char_def char_of_eval)

lemma large_id_parse:
  "parseAgentId large_global_id =
     Inr \<lparr>namespace = ''eip155'', chainId = Finite 8453,
          registry = ''0x8004A169FB4a3325136EB29fA0ceB6D2e539a432'',
          agentId = Finite 9007199254740992\<rparr>"
proof -
  have w: "well_formed_reference ''8453'' ''8004A169FB4a3325136EB29fA0ceB6D2e539a432'' CHR ''#''
             ''9007199254740993''"
    by (simp add: well_formed_reference_def is_digit_def is_hex_def)
  have g: "global_id_string ''8453'' ''8004A169FB4a3325136EB29fA0ceB6D2e539a432'' CHR ''#''
             ''9007199254740993'' = large_global_id"
    by (simp add: global_id_string_def large_global_id_def)
  show ?thesis
    using parseAgentId_well_formed[OF w]
    unfolding g sample_chain_Number large_id_Number by simp
qed

lemma large_id_format:
  "formatAgentId \<lparr>namespace = ''eip155'', chainId = Finite 8453,
          registry = ''0x8004A169FB4a3325136EB29fA0ceB6D2e539a432'',
          agentId = Finite 9007199254740992\<rparr> =
     ''eip155:8453:0x8004A169FB4a3325136EB29fA0ceB6D2e539a432#9007199254740992''"
  by (simp add: formatAgentId_def sample_chain_text large_id_text)

text \<open>
  Claim C9, as stated: for every well-formed reference string, with either separator,
  formatting the parsed reference gives the canonical form of the string, with its
  namespace, chain id, registry address and local id. \<^verbatim>\<open>Number\<close> yields a double: the local
  id \<open>9007199254740993\<close> is parsed as \<open>9007199254740992\<close> and printed so.
\<close>

theorem roundtrip_large_id_counterexample:
  "well_formed_reference ''8453'' ''8004A169FB4a3325136EB29fA0ceB6D2e539a432'' CHR ''#''
     ''9007199254740993'' \<and>
   global_id_string ''8453'' ''8004A169FB4a3325136EB29fA0ceB6D2e539a432'' CHR ''#''
     ''9007199254740993'' =
     ''eip155:8453:0x8004A169FB4a3325136EB29fA0ceB6D2e539a432#9007199254740993'' \<and>
   digits_value ''9007199254740993'' = 9007199254740993 \<and>
   map_sum id agentId
     (parseAgentId ''eip155:8453:0x8004A169FB4a3325136EB29fA0ceB6D2e539a432#9007199254740993'') =
     Inr (Finite 9007199254740992) \<and>
   map_sum id formatAgentId
     (parseAgentId ''eip155:8453:0x8004A169FB4a3325136EB29fA0ceB6D2e539a432#9007199254740993'') =
     Inr ''eip155:8453:0x8004A169FB4a3325136EB29fA0ceB6D2e539a432#9007199254740992''"
proof -
  have w: "well_formed_reference ''8453'' ''8004A169FB4a3325136EB29fA0ceB6D2e539a432'' CHR ''#''
             ''9007199254740993''"
    by (simp add: well_formed_reference_def is_digit_def is_hex_def)
  have g: "global_id_string ''8453'' ''8004A169FB4a3325136EB29fA0ceB6D2e539a432'' CHR ''#''
             ''9007199254740993'' =
           ''eip155:8453:0x8004A169FB4a3325136EB29fA0ceB6D2e539a432#9007199254740993''"
    by (simp add: global_id_string_def)
  have p: "parseAgentId ''eip155:8453:0x8004A169FB4a3325136EB29fA0ceB6D2e539a432#9007199254740993'' =
           Inr \<lparr>namespace = ''eip155'', chainId = Finite 8453,
                registry = ''0x8004A169FB4a3325136EB29fA0ceB6D2e539a432'',
                agentId = Finite 9007199254740992\<rparr>"
    using large_id_parse by (simp add: large_global_id_def)
  show ?thesis
    unfolding p using w g large_id_value large_id_format by simp
qed

text \<open>
  Claim C9, amended: for every well-formed reference string, with either separator, whose
  chain id and local id do not exceed \<open>2 ^ 53\<close> (up to there every integer is a double),
  parsing yields the namespace, the registry address, and the chain id and local id the
  string denotes, and formatting them gives the canonical form: those four fields with the
  separator \<open>#\<close>, the two numbers printed as integers. That string is the input with \<open>#\<close> for
  the separator when the input writes both numbers without a leading zero, and it parses
  to the same reference.
\<close>

theorem parse_format_roundtrip:
  assumes "well_formed_reference c h sep a"
    and "digits_value c \<le> 2 ^ 53" and "digits_value a \<le> 2 ^ 53"
  shows "parseAgentId (global_id_string c h sep a) =
           Inr \<lparr>namespace = ''eip155'', chainId = Finite (digits_value c),
                registry = ''0x'' @ h, agentId = Finite (digits_value a)\<rparr> \<and>
         map_sum id formatAgentId (parseAgentId (global_id_string c h sep a)) =
           Inr (global_id_string (show_nat (digits_value c)) h CHR ''#''
                  (show_nat (digits_value a))) \<and>
         (canonical_digits c \<and> canonical_digits a \<longrightarrow>
            map_sum id formatAgentId (parseAgentId (global_id_string c h sep a)) =
              Inr (global_id_string c h CHR ''#'' a)) \<and>
         parseAgentId (global_id_string (show_nat (digits_value c)) h CHR ''#''
                         (show_nat (digits_value a))) =
           parseAgentId (global_id_string c h sep a)"
proof -
  let ?ref = "\<lparr>namespace = ''eip155'', chainId = Finite (digits_value c),
                registry = ''0x'' @ h, agentId = Finite (digits_value a)\<rparr>"
  have nc: "Number c = Finite (digits_value c)" and na: "Number a = Finite (digits_value a)"
    using assms(2,3) by (simp_all add: Number_def to_double_exact)
  have p: "parseAgentId (global_id_string c h sep a) = Inr ?ref"
    using parseAgentId_well_formed[OF assms(1)] by (simp add: nc na)
  have f: "formatAgentId ?ref =
             global_id_string (show_nat (digits_value c)) h CHR ''#'' (show_nat (digits_value a))"
    using assms(2,3) by (simp add: formatAgentId_def Number_toString_exact global_id_string_def)
  have g: "canonical_digits c \<and> canonical_digits a \<longrightarrow>
             formatAgentId ?ref = global_id_string c h CHR ''#'' a"
    unfolding f by (simp add: show_nat_digits_value)
  have w: "well_formed_reference (show_nat (digits_value c)) h CHR ''#''
             (show_nat (digits_value a))"
    by (rule well_formed_printed[OF assms(1)])
  have q: "parseAgentId (global_id_string (show_nat (digits_value c)) h CHR ''#''
                           (show_nat (digits_value a))) = Inr ?ref"
    using parseAgentId_well_formed[OF w] assms(2,3)
    by (simp add: Number_def digits_value_show_nat to_double_exact)
  show ?thesis
    unfolding p q using f g by simp
qed

theorem parse_format_roundtrip_witness:
  "well_formed_reference ''08453'' ''8004A169FB4a3325136EB29fA0ceB6D2e539a432'' CHR ''/'' ''2376'' \<and>
   digits_value ''08453'' \<le> 2 ^ 53 \<and> digits_value ''2376'' \<le> 2 ^ 53 \<and>
   parseAgentId ''eip155:08453:0x8004A169FB4a3325136EB29fA0ceB6D2e539a432/2376'' =
     Inr \<lparr>namespace = ''eip155'', chainId = Finite 8453,
          registry = ''0x8004A169FB4a3325136EB29fA0ceB6D2e539a432'', agentId = Finite 2376\<rparr> \<and>
   map_sum id formatAgentId
     (parseAgentId ''eip155:08453:0x8004A169FB4a3325136EB29fA0ceB6D2e539a432/2376'') =
     Inr ''eip155:8453:0x8004A169FB4a3325136EB29fA0ceB6D2e539a432#2376'' \<and>
   parseAgentId ''eip155:8453:0x8004A169FB4a3325136EB29fA0ceB6D2e539a432#2376'' =
     parseAgentId ''eip155:08453:0x8004A169FB4a3325136EB29fA0ceB6D2e539a432/2376''"
proof -
  have w: "well_formed_reference ''08453'' ''8004A169FB4a3325136EB29fA0ceB6D2e539a432'' CHR ''/'' ''2376''"
    by (simp add: well_formed_reference_def is_digit_def is_hex_def)
  have nc: "digits_value ''08453'' = 8453" and na: "digits_value ''2376'' = 2376"
    by (simp_all add: digits_value_def digit_value_def)
  have bc: "digits_value ''08453'' \<le> 2 ^ 53" and ba: "digits_value ''2376'' \<le> 2 ^ 53"
    by (simp_all add: nc na)
  have sc: "show_nat 8453 = ''8453''" and sa: "show_nat 2376 = ''2376''"
    by (simp_all add: show_nat.simps digit_char_def char_of_eval)
  have g: "global_id_string ''08453'' ''8004A169FB4a3325136EB29fA0ceB6D2e539a432'' CHR ''/'' ''2376'' =
             ''eip155:08453:0x8004A169FB4a3325136EB29fA0ceB6D2e539a432/2376''"
    and g': "global_id_string ''8453'' ''8004A169FB4a3325136EB29fA0ceB6D2e539a432'' CHR ''#'' ''2376'' =
             ''eip155:8453:0x8004A169FB4a3325136EB29fA0ceB6D2e539a432#2376''"
    by (simp_all add: global_id_string_def)
  have e: "''0x'' @ ''8004A169FB4a3325136EB29fA0ceB6D2e539a432'' = ''0x8004A169FB4a3325136EB29fA0ceB6D2e539a432''" by simp
  note r = parse_format_roundtrip[OF w bc ba, unfolded nc na sc sa g g' e]
  show ?thesis
    using r w bc ba by blast
qed



section \<open>Verification\<close>

lemma toLowerChar_digit: "is_digit c \<Longrightarrow> toLowerChar c = c"
  by (simp add: toLowerChar_def is_digit_def Let_def)

lemma toLowerCase_fixed: "(\<And>c. c \<in> set s \<Longrightarrow> toLowerChar c = c) \<Longrightarrow> toLowerCase s = s"
  by (simp add: toLowerCase_def map_idI)

lemma toLowerCase_show_nat: "toLowerCase (show_nat n) = show_nat n"
proof (rule toLowerCase_fixed)
  fix c assume "c \<in> set (show_nat n)"
  then have "is_digit c" using show_nat_digits[of n] by (simp add: list_all_iff)
  then show "toLowerChar c = c" by (rule toLowerChar_digit)
qed

lemma toLowerCase_append: "toLowerCase (xs @ ys) = toLowerCase xs @ toLowerCase ys"
  by (simp add: toLowerCase_def)



lemma exponent_form_lower: "toLowerCase (exponent_form c) = exponent_form c"
proof (rule toLowerCase_fixed)
  fix x assume x: "x \<in> set (exponent_form c)"
  define sig where "sig = rev (dropWhile (\<lambda>d. d = CHR ''0'') (rev (show_nat c)))"
  define mant where
    "mant = (case sig of [] \<Rightarrow> [] | d # frac \<Rightarrow> if frac = [] then [d] else d # CHR ''.'' # frac)"
  have sig: "set sig \<subseteq> set (show_nat c)"
    using set_dropWhileD[of _ "\<lambda>d. d = CHR ''0''" "rev (show_nat c)"]
    by (auto simp: sig_def)
  have mant: "set mant \<subseteq> set sig \<union> {CHR ''.''}"
    unfolding mant_def by (cases sig) auto
  have "exponent_form c = mant @ ''e+'' @ show_nat (length (show_nat c) - 1)"
    by (simp only: exponent_form_def Let_def sig_def mant_def)
  then have "x \<in> set mant \<union> {CHR ''e'', CHR ''+''} \<union>
               set (show_nat (length (show_nat c) - 1))"
    using x by auto
  then have "x \<in> set (show_nat c) \<union> {CHR ''.'', CHR ''e'', CHR ''+''} \<union>
               set (show_nat (length (show_nat c) - 1))"
    using sig mant by blast
  then consider "x \<in> set (show_nat c)" | "x = CHR ''.''" | "x = CHR ''e''" | "x = CHR ''+''"
    | "x \<in> set (show_nat (length (show_nat c) - 1))"
    by auto
  then show "toLowerChar x = x"
  proof cases
    case 1
    then have "is_digit x" using show_nat_digits[of c] by (simp add: list_all_iff)
    then show ?thesis by (rule toLowerChar_digit)
  next
    case 2 then show ?thesis by (simp add: toLowerChar_def)
  next
    case 3 then show ?thesis by (simp add: toLowerChar_def)
  next
    case 4 then show ?thesis by (simp add: toLowerChar_def)
  next
    case 5
    then have "is_digit x"
      using show_nat_digits[of "length (show_nat c) - 1"] by (simp add: list_all_iff)
    then show ?thesis by (rule toLowerChar_digit)
  qed
qed

lemma toLowerCase_Number_toString:
  "toLowerCase (Number_toString (Finite n)) = Number_toString (Finite n)"
proof -
  define c where "c = shortest_decimal n (length (show_nat n) - 1)"
  have "Number_toString (Finite n) =
          (if n \<le> 2 ^ 53 then show_nat n
           else if c < 10 ^ 21 then show_nat c else exponent_form c)"
    by (simp only: Number_toString_def Let_def c_def number.case)
  then show ?thesis
    by (simp add: toLowerCase_show_nat exponent_form_lower)
qed

lemma toLowerCase_registry_prefix:
  "toLowerCase (''eip155:'' @ Number_toString (Finite c) @ '':'' @ r) =
   ''eip155:'' @ Number_toString (Finite c) @ '':'' @ toLowerCase r"
proof -
  have "toLowerCase ''eip155:'' = ''eip155:''" and "toLowerCase '':'' = '':''"
    by (simp_all add: toLowerCase_def toLowerChar_def)
  then show ?thesis
    by (simp only: toLowerCase_append toLowerCase_Number_toString)
qed






lemma untyped_entry_is_caught:
  assumes "get_prop reg ''registrations'' = Inr (Some (JArr (JObj [(''agentId'', JNum (int n))] # rs)))"
    and "agentId ref = Finite n"
  shows "\<exists>e. hasBackref ref (registryPrefix_of ref) reg = Inl e"
  using assms by (simp add: hasBackref_def backref_entry_def)

lemma sample_well_formed:
  "well_formed_reference ''8453'' ''8004A169FB4a3325136EB29fA0ceB6D2e539a432'' CHR ''#'' ''2376''"
  by (simp add: well_formed_reference_def is_digit_def is_hex_def)

lemma sample_agent_Number: "Number ''2376'' = Finite 2376"
  by (simp add: Number_def digits_value_def digit_value_def to_double_small)

lemma sample_parse: "parseAgentId sample_global_id = Inr sample_ref"
proof -
  have g: "global_id_string ''8453'' ''8004A169FB4a3325136EB29fA0ceB6D2e539a432'' CHR ''#'' ''2376''
             = sample_global_id"
    by (simp add: global_id_string_def sample_global_id_def)
  show ?thesis
    using parseAgentId_well_formed[OF sample_well_formed]
    unfolding g sample_chain_Number sample_agent_Number by (simp add: sample_ref_def)
qed

lemma sample_format: "formatAgentId sample_ref = sample_global_id"
  by (simp add: formatAgentId_def sample_ref_def sample_global_id_def sample_chain_text
        sample_agent_text)

lemma sample_rpc:
  "rpcUrl_of_input (GlobalId sample_global_id) sample_ref = Some ''https://mainnet.base.org''"
  by (simp add: rpcUrl_of_input_def sample_ref_def SUPPORTED_CHAINS_def)

lemma sample_prefix:
  "registryPrefix_of sample_ref = ''eip155:8453:0x8004a169fb4a3325136eb29fa0ceb6d2e539a432''"
  by (simp add: registryPrefix_of_def sample_ref_def sample_chain_text toLowerCase_def
        toLowerChar_def char_of_eval)



















section \<open>Registration files built by the identity object\<close>

lemma registration_file_registrations:
  "get_prop (registration_file this options (Some aid)) ''registrations'' =
     Inr (Some (JArr (own_entry this aid
                      # map registration_ref_json
                          (case opt_existingRegistrations options of Some l \<Rightarrow> l | None \<Rightarrow> []))))"
  by (simp add: registration_file_def optional_field_def registration_ref_json_def own_entry_def
        split: option.splits)

lemma own_entry_matches:
  assumes "chainId ref = Finite (chain_id this)" and "agentId ref = Finite aid"
    and "toLowerCase (registry ref) = toLowerCase (this_registry this)"
  shows "backref_entry ref (registryPrefix_of ref) (own_entry this aid) = Inr True"
proof -
  have "toLowerCase (''eip155:'' @ Number_toString (Finite (chain_id this)) @ '':'' @
                     this_registry this)
        = registryPrefix_of ref"
    unfolding registryPrefix_of_def toLowerCase_registry_prefix using assms by simp
  then show ?thesis
    using assms(2) by (simp add: backref_entry_def own_entry_def)
qed

text \<open>
  Claim C10: for every identity object, every \<^verbatim>\<open>RegisterOptions\<close> and every agent id,
  \<^verbatim>\<open>fetchRegistrationFile\<close> applied to \<^verbatim>\<open>buildRegistrationUri(options, agentId)\<close>
  succeeds without a network request and yields the registration file; its registrations
  list starts with the entry for the identity's chain and registry, and the
  back-reference test of \<^verbatim>\<open>verifyAgent\<close> holds for a reference to that chain, registry
  and agent id. The runtime's base64 and JSON codecs are assumed to give back the file
  they encoded (\<open>codec_roundtrip\<close>).
\<close>

theorem built_registration_has_backref:
  assumes "codec_roundtrip rt (registration_file this options (Some aid))"
  shows "fetchRegistrationFile rt (buildRegistrationUri rt this options (Some aid)) gateway
           = ([], Inr (registration_file this options (Some aid))) \<and>
         get_prop (registration_file this options (Some aid)) ''registrations'' =
            Inr (Some (JArr (own_entry this aid #
                             map registration_ref_json
                               (case opt_existingRegistrations options of
                                  Some l \<Rightarrow> l | None \<Rightarrow> [])))) \<and>
         (\<forall>ref. chainId ref = Finite (chain_id this) \<and> agentId ref = Finite aid \<and>
                toLowerCase (registry ref) = toLowerCase (this_registry this) \<longrightarrow>
                hasBackref ref (registryPrefix_of ref) (registration_file this options (Some aid))
                  = Inr True)"
proof (intro conjI allI impI)
  let ?file = "registration_file this options (Some aid)"
  let ?prefix = "''data:application/json;base64,''"
  have sw: "startsWith (?prefix @ x) ?prefix" for x
    by (simp add: startsWith_def)
  have dr: "drop (length ?prefix) (?prefix @ x) = x" for x
    by simp
  show "fetchRegistrationFile rt (buildRegistrationUri rt this options (Some aid)) gateway
          = ([], Inr ?file)"
    unfolding fetchRegistrationFile_def buildRegistrationUri_def
    using assms by (simp only: sw dr if_True Let_def codec_roundtrip_def)
  show "get_prop ?file ''registrations'' =
            Inr (Some (JArr (own_entry this aid #
                             map registration_ref_json
                               (case opt_existingRegistrations options of
                                  Some l \<Rightarrow> l | None \<Rightarrow> []))))"
    by (rule registration_file_registrations)
next
  fix ref :: AgentRef
  assume a: "chainId ref = Finite (chain_id this) \<and> agentId ref = Finite aid \<and>
             toLowerCase (registry ref) = toLowerCase (this_registry this)"
  have m: "backref_entry ref (registryPrefix_of ref) (own_entry this aid) = Inr True"
    using own_entry_matches a by blast
  show "hasBackref ref (registryPrefix_of ref) (registration_file this options (Some aid)) = Inr True"
    unfolding hasBackref_def registration_file_registrations
    by (simp add: m)
qed

lemma sample_file_text:
  "json_stringify_impl (registration_file sample_identity sample_options (Some 2376)) =
   ''{\"type\":\"https://eips.ethereum.org/EIPS/eip-8004#registration-v1\",\"name\":\"a\",\"description\":\"b\",\"services\":[],\"x402Support\":false,\"active\":true,\"registrations\":[{\"agentId\":2376,\"agentRegistry\":\"eip155:8453:0x8004A169FB4a3325136EB29fA0ceB6D2e539a432\"}]}''"
  by (simp add: sample_identity_def sample_options_def registration_file_def optional_field_def
        registration_ref_json_def REGISTRATION_TYPE_def sample_chain_text json_eval string_eval)

lemma sample_file_base64:
  "base64_decode_impl (base64_encode_impl
   ''{\"type\":\"https://eips.ethereum.org/EIPS/eip-8004#registration-v1\",\"name\":\"a\",\"description\":\"b\",\"services\":[],\"x402Support\":false,\"active\":true,\"registrations\":[{\"agentId\":2376,\"agentRegistry\":\"eip155:8453:0x8004A169FB4a3325136EB29fA0ceB6D2e539a432\"}]}'')
  = ''{\"type\":\"https://eips.ethereum.org/EIPS/eip-8004#registration-v1\",\"name\":\"a\",\"description\":\"b\",\"services\":[],\"x402Support\":false,\"active\":true,\"registrations\":[{\"agentId\":2376,\"agentRegistry\":\"eip155:8453:0x8004A169FB4a3325136EB29fA0ceB6D2e539a432\"}]}''"
  by (simp add: base64_eval string_eval)

lemma sample_file_parse:
  "json_parse_impl
   ''{\"type\":\"https://eips.ethereum.org/EIPS/eip-8004#registration-v1\",\"name\":\"a\",\"description\":\"b\",\"services\":[],\"x402Support\":false,\"active\":true,\"registrations\":[{\"agentId\":2376,\"agentRegistry\":\"eip155:8453:0x8004A169FB4a3325136EB29fA0ceB6D2e539a432\"}]}''
   = Inr (registration_file sample_identity sample_options (Some 2376))"
  by (simp add: sample_identity_def sample_options_def registration_file_def optional_field_def
        registration_ref_json_def REGISTRATION_TYPE_def sample_chain_text json_eval string_eval)

theorem built_registration_has_backref_witness:
  "codec_roundtrip plain_runtime (registration_file sample_identity sample_options (Some 2376)) \<and>
   fetchRegistrationFile plain_runtime
      (buildRegistrationUri plain_runtime sample_identity sample_options (Some 2376))
      DEFAULT_IPFS_GATEWAY
     = ([], Inr (registration_file sample_identity sample_options (Some 2376))) \<and>
   hasBackref
      \<lparr>namespace = ''eip155'', chainId = Finite 8453,
       registry = ''0x8004a169fb4a3325136eb29fa0ceb6d2e539a432'', agentId = Finite 2376\<rparr>
      (registryPrefix_of
         \<lparr>namespace = ''eip155'', chainId = Finite 8453,
          registry = ''0x8004a169fb4a3325136eb29fa0ceb6d2e539a432'', agentId = Finite 2376\<rparr>)
      (registration_file sample_identity sample_options (Some 2376))
     = Inr True"
proof -
  let ?file = "registration_file sample_identity sample_options (Some 2376)"
  let ?ref = "\<lparr>namespace = ''eip155'', chainId = Finite 8453,
               registry = ''0x8004a169fb4a3325136eb29fa0ceb6d2e539a432'', agentId = Finite 2376\<rparr>"
  have h: "codec_roundtrip plain_runtime ?file"
    unfolding codec_roundtrip_def plain_runtime_def reference_runtime_def
    by (simp only: runtime.simps sample_file_text sample_file_base64 sample_file_parse simp_thms)
  note t = built_registration_has_backref[OF h, of DEFAULT_IPFS_GATEWAY]
  have r: "chainId ?ref = Finite (chain_id sample_identity) \<and> agentId ?ref = Finite 2376 \<and>
           toLowerCase (registry ?ref) = toLowerCase (this_registry sample_identity)"
    by (simp add: sample_identity_def string_eval)
  show ?thesis
    using t r h by blast
qed


section \<open>The boundary of the resolver\<close>

lemma verify_try_valid:
  "(\<exists>res. verify_try rt url ref = Inr res \<and> valid res) = reads_and_record_succeed rt url ref"
proof
  assume "\<exists>res. verify_try rt url ref = Inr res \<and> valid res"
  then obtain res where r: "verify_try rt url ref = Inr res" and v: "valid res" by blast
  from r obtain n where n: "agentId ref = Finite n"
    by (cases "agentId ref") (simp_all add: verify_try_def BigInt_def)
  have b: "BigInt (agentId ref) = Inr n" by (simp add: BigInt_def n)
  from r obtain own where own: "readContract rt url (registry ref) ''ownerOf'' n = Inr own"
    unfolding verify_try_def b
    by (cases "readContract rt url (registry ref) ''ownerOf'' n") simp_all
  from r obtain wallet where
    wallet: "readContract rt url (registry ref) ''getAgentWallet'' n = Inr wallet"
    unfolding verify_try_def b
    by (cases "readContract rt url (registry ref) ''getAgentWallet'' n") (simp_all add: own)
  from r obtain uri where uri: "readContract rt url (registry ref) ''tokenURI'' n = Inr uri"
    unfolding verify_try_def b
    by (cases "readContract rt url (registry ref) ''tokenURI'' n") (simp_all add: own wallet)
  from r v obtain reg where
    reg: "snd (fetchRegistrationFile rt uri DEFAULT_IPFS_GATEWAY) = Inr reg"
    unfolding verify_try_def b
    by (cases "snd (fetchRegistrationFile rt uri DEFAULT_IPFS_GATEWAY)")
       (auto simp: own wallet uri)
  from r v have "hasBackref ref (registryPrefix_of ref) reg = Inr True"
    unfolding verify_try_def b
    by (cases "hasBackref ref (registryPrefix_of ref) reg")
       (auto simp: own wallet uri reg Let_def split: if_splits)
  then show "reads_and_record_succeed rt url ref"
    unfolding reads_and_record_succeed_def using n own wallet uri reg by blast
next
  assume "reads_and_record_succeed rt url ref"
  then obtain n own wallet uri reg where n: "agentId ref = Finite n"
    and own: "readContract rt url (registry ref) ''ownerOf'' n = Inr own"
    and wallet: "readContract rt url (registry ref) ''getAgentWallet'' n = Inr wallet"
    and uri: "readContract rt url (registry ref) ''tokenURI'' n = Inr uri"
    and reg: "snd (fetchRegistrationFile rt uri DEFAULT_IPFS_GATEWAY) = Inr reg"
    and found: "hasBackref ref (registryPrefix_of ref) reg = Inr True"
    unfolding reads_and_record_succeed_def by blast
  have b: "BigInt (agentId ref) = Inr n" by (simp add: BigInt_def n)
  have "verify_try rt url ref =
          Inr \<lparr>valid = True, vr_agentId = agentId ref, owner = Some own,
               paymentWallet = (if wallet = ZERO_ADDRESS then None else Some wallet),
               registration = Some reg, globalId = formatAgentId ref, error = None\<rparr>"
    unfolding verify_try_def b by (simp add: own wallet uri reg found)
  then show "\<exists>res. verify_try rt url ref = Inr res \<and> valid res" by simp
qed

lemma verify_try_error:
  assumes "verify_try rt url ref = Inr res"
  shows "(valid res \<longrightarrow> error res = None) \<and> (\<not> valid res \<longrightarrow> (\<exists>msg. error res = Some msg))"
  using assms
  by (auto simp: verify_try_def Let_def split: sum.splits if_splits)

lemma verify_catch_error:
  "\<not> valid (verify_catch ref message) \<and> (\<exists>msg. error (verify_catch ref message) = Some msg)"
  by (simp add: verify_catch_def)

lemma no_rpc_error: "\<not> valid (no_rpc_result ref) \<and> (\<exists>msg. error (no_rpc_result ref) = Some msg)"
  by (simp add: no_rpc_result_def)

lemma string_rpc:
  "rpcUrl_of_input (GlobalId s) ref =
     map_option rpc (case chainId ref of Finite c \<Rightarrow> SUPPORTED_CHAINS c | Infinity \<Rightarrow> None)"
  by (simp add: rpcUrl_of_input_def Let_def)

lemma all_steps_via_rpc:
  "all_steps_succeed rt ref =
     (\<exists>url. rpcUrl_of_input (GlobalId s) ref = Some url \<and> url \<noteq> [] \<and>
            reads_and_record_succeed rt url ref)"
  unfolding string_rpc all_steps_succeed_def
  by (cases "chainId ref") auto

lemma sample_file_fetch:
  "fetchRegistrationFile registered_runtime registered_uri DEFAULT_IPFS_GATEWAY
   = ([], Inr (registration_file sample_identity sample_options (Some 2376)))"
proof -
  let ?prefix = "''data:application/json;base64,''"
  have sw: "startsWith (?prefix @ x) ?prefix" for x
    by (simp add: startsWith_def)
  have dr: "drop (length ?prefix) (?prefix @ x) = x" for x
    by simp
  show ?thesis
    unfolding fetchRegistrationFile_def registered_runtime_def reference_runtime_def
      registered_uri_def
    by (simp only: sw dr if_True Let_def runtime.simps sample_file_text sample_file_base64
          sample_file_parse)
qed

lemma sample_file_backref:
  "hasBackref sample_ref (registryPrefix_of sample_ref)
     (registration_file sample_identity sample_options (Some 2376)) = Inr True"
proof -
  have m: "backref_entry sample_ref (registryPrefix_of sample_ref)
             (own_entry sample_identity 2376) = Inr True"
    by (rule own_entry_matches) (simp_all add: sample_ref_def sample_identity_def)
  show ?thesis
    unfolding hasBackref_def registration_file_registrations
    by (simp add: m)
qed

lemma registered_verification:
  "verifyAgent registered_runtime (GlobalId sample_global_id) =
     Inr \<lparr>valid = True, vr_agentId = Finite 2376, owner = Some sample_owner,
          paymentWallet = None,
          registration = Some (registration_file sample_identity sample_options (Some 2376)),
          globalId = sample_global_id, error = None\<rparr>"
proof -
  let ?url = "''https://mainnet.base.org''"
  have r1: "readContract registered_runtime ?url (registry sample_ref) ''ownerOf'' 2376
              = Inr sample_owner"
    and r2: "readContract registered_runtime ?url (registry sample_ref) ''getAgentWallet'' 2376
              = Inr ZERO_ADDRESS"
    and r3: "readContract registered_runtime ?url (registry sample_ref) ''tokenURI'' 2376
              = Inr registered_uri"
    by (simp_all add: registered_runtime_def reference_runtime_def fixed_ledger_def)
  have b: "BigInt (agentId sample_ref) = Inr 2376"
    by (simp add: BigInt_def sample_ref_def)
  have a: "agentId sample_ref = Finite 2376" by (simp add: sample_ref_def)
  have t: "verify_try registered_runtime ?url sample_ref =
             Inr \<lparr>valid = True, vr_agentId = Finite 2376, owner = Some sample_owner,
                  paymentWallet = None,
                  registration = Some (registration_file sample_identity sample_options (Some 2376)),
                  globalId = sample_global_id, error = None\<rparr>"
    unfolding verify_try_def b
    by (simp add: r1 r2 r3 sample_file_fetch sample_file_backref sample_format a)
  show ?thesis
    by (simp add: verifyAgent_def ref_of_input_def sample_parse sample_rpc t)
qed

lemma reverted_verification:
  "verifyAgent plain_runtime (GlobalId sample_global_id) =
     Inr \<lparr>valid = False, vr_agentId = Finite 2376, owner = None, paymentWallet = None,
          registration = None, globalId = sample_global_id,
          error = Some ''Agent #2376 does not exist on chain 8453''\<rparr>"
proof -
  let ?url = "''https://mainnet.base.org''"
  have b: "BigInt (agentId sample_ref) = Inr 2376"
    by (simp add: BigInt_def sample_ref_def)
  have t: "verify_try plain_runtime ?url sample_ref = Inl ''execution reverted''"
    unfolding verify_try_def b
    by (simp add: plain_runtime_def reference_runtime_def)
  have c: "verify_catch sample_ref ''execution reverted'' =
             \<lparr>valid = False, vr_agentId = Finite 2376, owner = None, paymentWallet = None,
              registration = None, globalId = sample_global_id,
              error = Some ''Agent #2376 does not exist on chain 8453''\<rparr>"
    by (simp add: verify_catch_def sample_format str_includes_def sublist_code)
       (simp add: sample_ref_def sample_agent_text sample_chain_text)
  show ?thesis
    by (simp add: verifyAgent_def ref_of_input_def sample_parse sample_rpc t c)
qed

text \<open>
  Claim C2, as stated: \<^verbatim>\<open>verifyAgent\<close> never throws and reports a malformed reference as
  a \<^verbatim>\<open>valid: false\<close> result. It throws on a string that does not match the pattern.
\<close>

theorem verifyAgent_throws_counterexample:
  "verifyAgent plain_runtime (GlobalId ''agent-2376'') =
     Inl (invalid_format_message ''agent-2376'')"
  by (simp add: verifyAgent_def ref_of_input_def parse_eval startsWith_def)

text \<open>
  Claim C2, amended: for every input string that matches the global-id pattern,
  \<^verbatim>\<open>verifyAgent\<close> does not throw: it returns a \<^verbatim>\<open>VerificationResult\<close>. The result is
  \<^verbatim>\<open>valid: true\<close>, without an error, exactly when every step succeeds (the chain has an
  endpoint, the ledger reads return, the record is fetched and parsed, the back-reference
  is found); every failure of a step gives \<^verbatim>\<open>valid: false\<close> with an error message. For a
  string that does not match the pattern it throws the error of \<^verbatim>\<open>parseAgentId\<close>.
\<close>

theorem verifyAgent_boundary:
  "(parseAgentId s = Inl e \<longrightarrow> verifyAgent rt (GlobalId s) = Inl e) \<and>
   (parseAgentId s = Inr ref \<longrightarrow>
      (\<exists>res. verifyAgent rt (GlobalId s) = Inr res \<and>
             (valid res = all_steps_succeed rt ref) \<and>
             (valid res \<longrightarrow> error res = None) \<and>
             (\<not> valid res \<longrightarrow> (\<exists>msg. error res = Some msg))))"
proof (intro conjI impI)
  assume "parseAgentId s = Inl e"
  then show "verifyAgent rt (GlobalId s) = Inl e"
    by (simp add: verifyAgent_def ref_of_input_def)
next
  assume p: "parseAgentId s = Inr ref"
  show "\<exists>res. verifyAgent rt (GlobalId s) = Inr res \<and>
             (valid res = all_steps_succeed rt ref) \<and>
             (valid res \<longrightarrow> error res = None) \<and>
             (\<not> valid res \<longrightarrow> (\<exists>msg. error res = Some msg))"
  proof (cases "rpcUrl_of_input (GlobalId s) ref")
    case None
    have "\<not> all_steps_succeed rt ref"
      unfolding all_steps_via_rpc[of rt ref s] by (simp add: None)
    then show ?thesis
      using no_rpc_error[of ref]
      by (simp add: verifyAgent_def ref_of_input_def p None)
  next
    case (Some url)
    have steps: "all_steps_succeed rt ref = (url \<noteq> [] \<and> reads_and_record_succeed rt url ref)"
      unfolding all_steps_via_rpc[of rt ref s] by (simp add: Some)
    show ?thesis
    proof (cases "url = []")
      case True
      then show ?thesis
        using no_rpc_error[of ref] steps
        by (simp add: verifyAgent_def ref_of_input_def p Some)
    next
      case False
      show ?thesis
      proof (cases "verify_try rt url ref")
        case (Inl m)
        have "\<not> reads_and_record_succeed rt url ref"
          using verify_try_valid[of rt url ref] Inl by simp
        then show ?thesis
          using verify_catch_error[of ref m] steps
          by (simp add: verifyAgent_def ref_of_input_def p Some False Inl)
      next
        case (Inr res)
        have "valid res = reads_and_record_succeed rt url ref"
          using verify_try_valid[of rt url ref] Inr by simp
        then show ?thesis
          using verify_try_error[OF Inr] steps False
          by (simp add: verifyAgent_def ref_of_input_def p Some Inr)
      qed
    qed
  qed
qed

theorem verifyAgent_boundary_witness:
  "parseAgentId ''agent-2376'' = Inl (invalid_format_message ''agent-2376'') \<and>
   verifyAgent plain_runtime (GlobalId ''agent-2376'') = Inl (invalid_format_message ''agent-2376'') \<and>
   parseAgentId sample_global_id = Inr sample_ref \<and>
   verifyAgent plain_runtime (GlobalId sample_global_id) =
     Inr \<lparr>valid = False, vr_agentId = Finite 2376, owner = None, paymentWallet = None,
          registration = None, globalId = sample_global_id,
          error = Some ''Agent #2376 does not exist on chain 8453''\<rparr> \<and>
   \<not> all_steps_succeed plain_runtime sample_ref \<and>
   verifyAgent registered_runtime (GlobalId sample_global_id) =
     Inr \<lparr>valid = True, vr_agentId = Finite 2376, owner = Some sample_owner,
          paymentWallet = None,
          registration = Some (registration_file sample_identity sample_options (Some 2376)),
          globalId = sample_global_id, error = None\<rparr> \<and>
   all_steps_succeed registered_runtime sample_ref"
proof -
  have bad: "parseAgentId ''agent-2376'' = Inl (invalid_format_message ''agent-2376'')"
    by (simp add: parse_eval startsWith_def)
  note t1 = verifyAgent_boundary[of "''agent-2376''" "invalid_format_message ''agent-2376''"
              plain_runtime sample_ref]
  note t2 = verifyAgent_boundary[of sample_global_id "[]" plain_runtime sample_ref]
  note t3 = verifyAgent_boundary[of sample_global_id "[]" registered_runtime sample_ref]
  have n: "\<not> all_steps_succeed plain_runtime sample_ref"
    using t2 sample_parse reverted_verification by auto
  have y: "all_steps_succeed registered_runtime sample_ref"
    using t3 sample_parse registered_verification by auto
  show ?thesis
    using t1 bad sample_parse reverted_verification registered_verification n y by blast
qed


section \<open>The request handler\<close>

lemma paid_server_payment: "paymentServer paid_server = Some paid_payment_server"
  by (simp add: paid_server_def tool_def createAgentMcpServer_def paid_config_def
        new_PaymentServer_def paid_payment_server_def DEFAULT_NETWORK_def USDC_BASE_def
        DEFAULT_TIMEOUT_SECONDS_def Let_def)

lemma paid_server_cors: "cors paid_server"
  by (simp add: paid_server_def tool_def createAgentMcpServer_def Let_def)

lemma free_server_payment: "paymentServer free_server = None"
  by (simp add: free_server_def createAgentMcpServer_def)

lemma free_server_cors: "cors free_server"
  by (simp add: free_server_def createAgentMcpServer_def)

lemma plain_connect_first: "mcp_connect plain_runtime [] closed_before = Inr ()"
  by (simp add: plain_runtime_def reference_runtime_def single_transport_connect_def)

text \<open>
  Claim C8, as stated: exactly one path accepts protocol traffic, and a request on any
  other path is answered 404. The handler also accepts \<open>/\<close>: a session-initiating POST to
  \<open>/\<close> is handed to a new engine transport.
\<close>

theorem root_path_counterexample:
  "http_url (post_request ''/'' None None None) \<noteq> ''/mcp'' \<and>
   snd (handle_request plain_runtime free_server ''7f3c'' initial_state
          (post_request ''/'' None None None)) = Forward 0"
  by (simp add: handle_request_def payment_gate_def session_lookup_def free_server_payment
        free_server_cors post_request_def initial_state_def plain_connect_first Let_def)

text \<open>
  Claim C8, amended: two paths accept protocol traffic, \<open>/mcp\<close> and \<open>/\<close>. Every request
  whose URL is neither is answered by the handler itself, without reaching the payment
  gate or the engine: with status 404 and the hint body, or, for an \<^verbatim>\<open>OPTIONS\<close> request
  when CORS is enabled, with the 204 preflight reply. The session table is unchanged.
\<close>

theorem other_paths_rejected:
  assumes "http_url req \<noteq> ''/mcp''" and "http_url req \<noteq> ''/''"
  shows "handle_request rt this uuid st req =
           (st, Reply (if cors this \<and> http_method req = ''OPTIONS''
                       then \<lparr>reply_status = 204, reply_headers = cors_headers this,
                             reply_body = None\<rparr>
                       else \<lparr>reply_status = 404,
                             reply_headers = cors_headers this @
                               [(''Content-Type'', ''application/json'')],
                             reply_body = Some (JObj [(''error'', JStr ''Not found''),
                                                      (''hint'', JStr ''MCP endpoint is at /mcp'')])\<rparr>))"
  using assms by (simp add: handle_request_def not_found_reply_def)

theorem other_paths_rejected_witness:
  "http_url (post_request ''/tools'' None None None) \<noteq> ''/mcp'' \<and>
   http_url (post_request ''/tools'' None None None) \<noteq> ''/'' \<and>
   handle_request plain_runtime paid_server ''7f3c'' initial_state
     (post_request ''/tools'' None None None) =
     (initial_state,
      Reply \<lparr>reply_status = 404,
             reply_headers = cors_headers paid_server @ [(''Content-Type'', ''application/json'')],
             reply_body = Some (JObj [(''error'', JStr ''Not found''),
                                      (''hint'', JStr ''MCP endpoint is at /mcp'')])\<rparr>)"
proof -
  let ?req = "post_request ''/tools'' None None None"
  have a: "http_url ?req \<noteq> ''/mcp''" and b: "http_url ?req \<noteq> ''/''"
    by (simp_all add: post_request_def)
  have m: "\<not> (cors paid_server \<and> http_method ?req = ''OPTIONS'')"
    by (simp add: post_request_def)
  note t = other_paths_rejected[OF a b, of plain_runtime paid_server "''7f3c''" initial_state]
  show ?thesis
    using t a b m by simp
qed

text \<open>
  Claim C3: a request that names a free tool is not challenged. The handler challenges
  every POST without an \<^verbatim>\<open>X-PAYMENT\<close> header when payment is configured; it never reads
  the tool name nor the \<^verbatim>\<open>requiresPayment\<close> flags that \<^verbatim>\<open>tool\<close> records. On a server
  with the default free list, a call of \<open>ping\<close> is answered 402.
\<close>

theorem free_tool_challenged:
  "srv_payment (config paid_server) = Some paid_config \<and> freeTools paid_config = None \<and>
   handle_request plain_runtime paid_server ''7f3c'' initial_state
     (post_request ''/mcp'' None None (Some ''ping'')) =
     (initial_state,
      Reply (payment_required_reply plain_runtime paid_server paid_payment_server
              (post_request ''/mcp'' None None (Some ''ping'')))) \<and>
   reply_status (payment_required_reply plain_runtime paid_server paid_payment_server
                  (post_request ''/mcp'' None None (Some ''ping''))) = 402"
proof -
  have cfg: "srv_payment (config paid_server) = Some paid_config"
    by (simp add: paid_server_def tool_def createAgentMcpServer_def Let_def)
  have f: "freeTools paid_config = None"
    by (simp add: paid_config_def)
  have h: "handle_request plain_runtime paid_server ''7f3c'' initial_state
     (post_request ''/mcp'' None None (Some ''ping'')) =
     (initial_state,
      Reply (payment_required_reply plain_runtime paid_server paid_payment_server
              (post_request ''/mcp'' None None (Some ''ping''))))"
    by (simp add: handle_request_def payment_gate_def paid_server_payment paid_server_cors
          post_request_def)
  have s: "reply_status (payment_required_reply plain_runtime paid_server paid_payment_server
                  (post_request ''/mcp'' None None (Some ''ping''))) = 402"
    by (simp add: payment_required_reply_def Let_def)
  show ?thesis using cfg f h s by blast
qed

lemma free_tool_flag:
  "tools (tool this name) name =
     Some (srv_payment (config this) \<noteq> None \<and>
           name \<notin> set (case srv_payment (config this) of
                           None \<Rightarrow> [''ping'']
                         | Some pay \<Rightarrow> (case freeTools pay of Some l \<Rightarrow> l | None \<Rightarrow> [''ping''])))"
  by (simp add: tool_def Let_def)

lemma challenge_ignores_tool:
  "payment_required_reply rt this ps (req\<lparr>tool_called := a\<rparr>) = payment_required_reply rt this ps req"
  by (simp add: payment_required_reply_def)

lemma gate_ignores_tool:
  "payment_gate rt this (req\<lparr>tool_called := a\<rparr>) = payment_gate rt this req"
  by (cases "paymentServer this")
     (simp_all add: payment_gate_def challenge_ignores_tool Let_def cong: if_cong)

lemma lookup_ignores_tool:
  "session_lookup rt this uuid st (req\<lparr>tool_called := a\<rparr>) = session_lookup rt this uuid st req"
  by (simp add: session_lookup_def Let_def cong: if_cong)

lemma handler_ignores_tool:
  "handle_request rt this uuid st (req\<lparr>tool_called := a\<rparr>) = handle_request rt this uuid st req"
  by (simp add: handle_request_def gate_ignores_tool lookup_ignores_tool
        cong: if_cong option.case_cong)


section \<open>The payment challenge\<close>

lemma cors_headers_no_challenge: "map_of (cors_headers this) ''X-PAYMENT-REQUIRED'' = None"
  by (simp add: cors_headers_def)

lemma challenge_payload_fields:
  "json_field ''version'' (challenge_payload r) = Some (JNum 2) \<and>
   Option.bind (Option.bind (json_field ''accepts'' (challenge_payload r)) (json_element 0))
     (json_field ''resource'') = Some (JStr (req_resource r))"
  by (simp add: challenge_payload_def requirements_json_def json_field_def json_element_def)

lemma gate_no_header:
  assumes "paymentServer this = Some ps" and "http_method req = ''POST''"
    and "x_payment req = None"
  shows "payment_gate rt this req = Some (payment_required_reply rt this ps req)"
  using assms by (simp add: payment_gate_def)

lemma gate_invalid_header:
  assumes "paymentServer this = Some ps" and "http_method req = ''POST''"
    and "x_payment req = Some h" and "h \<noteq> []" and "\<not> pv_valid (verify rt ps (Some h))"
  shows "payment_gate rt this req =
           Some (invalid_payment_reply this (pv_error (verify rt ps (Some h))))"
  using assms by (simp add: payment_gate_def Let_def)

lemma handle_at_gate:
  assumes "http_method req = ''POST''" and "http_url req = ''/mcp'' \<or> http_url req = ''/''"
    and "payment_gate rt this req = Some reply"
  shows "handle_request rt this uuid st req = (st, Reply reply)"
  using assms by (auto simp: handle_request_def)

lemma sample_challenge_text:
  "json_stringify_impl sample_challenge =
   ''{\"version\":2,\"accepts\":[{\"scheme\":\"exact\",\"network\":\"eip155:8453\",\"maxAmountRequired\":\"100000\",\"resource\":\"https://agent.example/mcp\",\"description\":\"demo MCP service\",\"payTo\":\"0x00000000000000000000000000000000000A11CE\",\"maxTimeoutSeconds\":300,\"asset\":\"0x833589fCD6eDb6E08f4c7C32D4f71b54bdA02913\"}]}''"
  by (simp add: sample_challenge_def challenge_payload_def requirements_json_def
        buildRequirements_def overridden_def challenge_resource_def post_request_def
        paid_payment_server_def USDC_BASE_def json_eval string_eval)

lemma sample_challenge_base64:
  "base64_decode_impl (base64_encode_impl
   ''{\"version\":2,\"accepts\":[{\"scheme\":\"exact\",\"network\":\"eip155:8453\",\"maxAmountRequired\":\"100000\",\"resource\":\"https://agent.example/mcp\",\"description\":\"demo MCP service\",\"payTo\":\"0x00000000000000000000000000000000000A11CE\",\"maxTimeoutSeconds\":300,\"asset\":\"0x833589fCD6eDb6E08f4c7C32D4f71b54bdA02913\"}]}'')
   = ''{\"version\":2,\"accepts\":[{\"scheme\":\"exact\",\"network\":\"eip155:8453\",\"maxAmountRequired\":\"100000\",\"resource\":\"https://agent.example/mcp\",\"description\":\"demo MCP service\",\"payTo\":\"0x00000000000000000000000000000000000A11CE\",\"maxTimeoutSeconds\":300,\"asset\":\"0x833589fCD6eDb6E08f4c7C32D4f71b54bdA02913\"}]}''"
  by (simp add: base64_eval string_eval)

lemma sample_challenge_parse:
  "json_parse_impl
   ''{\"version\":2,\"accepts\":[{\"scheme\":\"exact\",\"network\":\"eip155:8453\",\"maxAmountRequired\":\"100000\",\"resource\":\"https://agent.example/mcp\",\"description\":\"demo MCP service\",\"payTo\":\"0x00000000000000000000000000000000000A11CE\",\"maxTimeoutSeconds\":300,\"asset\":\"0x833589fCD6eDb6E08f4c7C32D4f71b54bdA02913\"}]}''
   = Inr sample_challenge"
  by (simp add: sample_challenge_def challenge_payload_def requirements_json_def
        buildRequirements_def overridden_def challenge_resource_def post_request_def
        paid_payment_server_def USDC_BASE_def json_eval string_eval)

lemma unrecognized_header_invalid:
  "verify plain_runtime paid_payment_server (Some unrecognized_header) =
     invalid_payment ''Unrecognized payment payload format''"
  by (simp add: verify_def parsePaymentHeader_def verify_try_payload_def optional_prop_def
        unrecognized_header_def plain_runtime_def reference_runtime_def
        base64_eval json_eval string_eval)

lemma sample_challenge_header:
  "map_of (reply_headers (payment_required_reply plain_runtime paid_server paid_payment_server
             (post_request ''/mcp'' None None (Some ''get-price'')))) ''X-PAYMENT-REQUIRED''
   = Some (base64_encode_impl (json_stringify_impl sample_challenge))"
  by (simp add: payment_required_reply_def Let_def map_add_def cors_headers_no_challenge
        buildRequirementsHeader_def sample_challenge_def challenge_resource_def
        post_request_def plain_runtime_def reference_runtime_def)

lemma paid_server_free_list: "free_list paid_server = [''ping'']"
  by (simp add: free_list_def paid_server_def tool_def createAgentMcpServer_def paid_config_def
        Let_def)

lemma get_price_guarded:
  "guarded paid_server (post_request path payment session (Some ''get-price''))"
  by (simp add: guarded_def paid_server_free_list post_request_def)

text \<open>
  Claim C5, as stated: the challenge of a guarded request without an \<^verbatim>\<open>X-PAYMENT\<close> header
  names a resource equal to the requested path. For a call of the tool \<open>get-price\<close>, which
  is not on the free list, by a POST to \<open>/mcp\<close> on host \<open>agent.example\<close>, the header decodes
  to a payload whose \<^verbatim>\<open>accepts[0].resource\<close> is the URL \<open>https://agent.example/mcp\<close>, not the
  path \<open>/mcp\<close>.
\<close>

theorem challenge_resource_counterexample:
  "guarded paid_server (post_request ''/mcp'' None None (Some ''get-price'')) \<and>
   x_payment (post_request ''/mcp'' None None (Some ''get-price'')) = None \<and>
   http_url (post_request ''/mcp'' None None (Some ''get-price'')) = ''/mcp'' \<and>
   handle_request plain_runtime paid_server ''7f3c'' initial_state
       (post_request ''/mcp'' None None (Some ''get-price'')) =
     (initial_state,
      Reply (payment_required_reply plain_runtime paid_server paid_payment_server
               (post_request ''/mcp'' None None (Some ''get-price'')))) \<and>
   JSON_parse plain_runtime (base64_decode plain_runtime (the (map_of
       (reply_headers (payment_required_reply plain_runtime paid_server paid_payment_server
                         (post_request ''/mcp'' None None (Some ''get-price''))))
       ''X-PAYMENT-REQUIRED''))) = Inr sample_challenge \<and>
   Option.bind (Option.bind (json_field ''accepts'' sample_challenge) (json_element 0))
     (json_field ''resource'') = Some (JStr ''https://agent.example/mcp'')"
proof -
  let ?req = "post_request ''/mcp'' None None (Some ''get-price'')"
  have a: "x_payment ?req = None" and b: "http_url ?req = ''/mcp''"
    and m: "http_method ?req = ''POST''"
    by (simp_all add: post_request_def)
  have h: "handle_request plain_runtime paid_server ''7f3c'' initial_state ?req =
     (initial_state, Reply (payment_required_reply plain_runtime paid_server paid_payment_server ?req))"
    using handle_at_gate[OF m _ gate_no_header[OF paid_server_payment m a]] b by simp
  have d: "JSON_parse plain_runtime (base64_decode plain_runtime (the (map_of
       (reply_headers (payment_required_reply plain_runtime paid_server paid_payment_server ?req))
       ''X-PAYMENT-REQUIRED''))) = Inr sample_challenge"
    unfolding sample_challenge_header option.sel sample_challenge_text
    unfolding plain_runtime_def reference_runtime_def
    by (simp only: runtime.simps sample_challenge_base64 sample_challenge_parse)
  have r: "Option.bind (Option.bind (json_field ''accepts'' sample_challenge) (json_element 0))
     (json_field ''resource'') = Some (JStr ''https://agent.example/mcp'')"
    using challenge_payload_fields[of "buildRequirements paid_payment_server
          (challenge_resource ?req) None"]
    by (simp add: sample_challenge_def buildRequirements_def challenge_resource_def post_request_def)
  show ?thesis using get_price_guarded a b h d r by blast
qed

text \<open>
  Claim C5, amended: on a server with payment configured, every guarded request (a POST to
  \<open>/mcp\<close> or \<open>/\<close> that calls a tool outside the free list) without an \<^verbatim>\<open>X-PAYMENT\<close> header
  is answered 402 with an \<^verbatim>\<open>X-PAYMENT-REQUIRED\<close> header that is the base64 encoding of
  the JSON text of \<^verbatim>\<open>{version: 2, accepts: [requirements]}\<close>, where
  \<^verbatim>\<open>accepts[0].resource\<close> is the URL \<open>https://\<close> followed by the \<^verbatim>\<open>Host\<close> header
  (\<open>localhost\<close> when absent) and the requested path; a guarded request whose header does
  not pass \<^verbatim>\<open>verify\<close> is answered 402 as well, without that header and with the error
  body \<open>Invalid Payment\<close>.
\<close>

theorem guarded_request_challenged:
  assumes "paymentServer this = Some ps" and "guarded this req"
    and "http_method req = ''POST''"
    and "http_url req = ''/mcp'' \<or> http_url req = ''/''"
  shows "(x_payment req = None \<longrightarrow>
          (\<exists>reply payload.
             handle_request rt this uuid st req = (st, Reply reply) \<and>
             reply_status reply = 402 \<and>
             payload = challenge_payload (buildRequirements ps (challenge_resource req) None) \<and>
             map_of (reply_headers reply) ''X-PAYMENT-REQUIRED'' =
               Some (base64_encode rt (JSON_stringify rt payload)) \<and>
             (codec_roundtrip rt payload \<longrightarrow>
                JSON_parse rt (base64_decode rt (base64_encode rt (JSON_stringify rt payload)))
                  = Inr payload) \<and>
             json_field ''version'' payload = Some (JNum 2) \<and>
             Option.bind (Option.bind (json_field ''accepts'' payload) (json_element 0))
               (json_field ''resource'') = Some (JStr (challenge_resource req)) \<and>
             Option.bind (reply_body reply) (json_field ''error'') =
               Some (JStr ''Payment Required''))) \<and>
         (\<forall>h. x_payment req = Some h \<and> h \<noteq> [] \<and> \<not> pv_valid (verify rt ps (Some h)) \<longrightarrow>
          (\<exists>reply.
             handle_request rt this uuid st req = (st, Reply reply) \<and>
             reply_status reply = 402 \<and>
             map_of (reply_headers reply) ''X-PAYMENT-REQUIRED'' = None \<and>
             Option.bind (reply_body reply) (json_field ''error'') =
               Some (JStr ''Invalid Payment'') \<and>
             Option.bind (reply_body reply) (json_field ''message'') =
               map_option JStr (pv_error (verify rt ps (Some h)))))"
proof (intro conjI impI allI)
  assume n: "x_payment req = None"
  let ?payload = "challenge_payload (buildRequirements ps (challenge_resource req) None)"
  let ?reply = "payment_required_reply rt this ps req"
  have h: "handle_request rt this uuid st req = (st, Reply ?reply)"
    by (rule handle_at_gate[OF assms(3,4) gate_no_header[OF assms(1,3) n]])
  have s: "reply_status ?reply = 402"
    by (simp add: payment_required_reply_def Let_def)
  have hd: "map_of (reply_headers ?reply) ''X-PAYMENT-REQUIRED'' =
              Some (base64_encode rt (JSON_stringify rt ?payload))"
    by (simp add: payment_required_reply_def Let_def map_add_def cors_headers_no_challenge
          buildRequirementsHeader_def challenge_resource_def)
  have r: "req_resource (buildRequirements ps (challenge_resource req) None) = challenge_resource req"
    by (simp add: buildRequirements_def)
  have b: "Option.bind (reply_body ?reply) (json_field ''error'') = Some (JStr ''Payment Required'')"
    by (simp add: payment_required_reply_def Let_def json_field_def)
  show "\<exists>reply payload.
             handle_request rt this uuid st req = (st, Reply reply) \<and>
             reply_status reply = 402 \<and>
             payload = challenge_payload (buildRequirements ps (challenge_resource req) None) \<and>
             map_of (reply_headers reply) ''X-PAYMENT-REQUIRED'' =
               Some (base64_encode rt (JSON_stringify rt payload)) \<and>
             (codec_roundtrip rt payload \<longrightarrow>
                JSON_parse rt (base64_decode rt (base64_encode rt (JSON_stringify rt payload)))
                  = Inr payload) \<and>
             json_field ''version'' payload = Some (JNum 2) \<and>
             Option.bind (Option.bind (json_field ''accepts'' payload) (json_element 0))
               (json_field ''resource'') = Some (JStr (challenge_resource req)) \<and>
             Option.bind (reply_body reply) (json_field ''error'') =
               Some (JStr ''Payment Required'')"
    using h s hd b challenge_payload_fields[of "buildRequirements ps (challenge_resource req) None"] r
    by (intro exI[of _ ?reply] exI[of _ ?payload]) (simp add: codec_roundtrip_def)
next
  fix h
  assume a: "x_payment req = Some h \<and> h \<noteq> [] \<and> \<not> pv_valid (verify rt ps (Some h))"
  let ?reply = "invalid_payment_reply this (pv_error (verify rt ps (Some h)))"
  have g: "payment_gate rt this req = Some ?reply"
    using gate_invalid_header[OF assms(1,3)] a by blast
  have hr: "handle_request rt this uuid st req = (st, Reply ?reply)"
    by (rule handle_at_gate[OF assms(3,4) g])
  have s: "reply_status ?reply = 402"
    by (simp add: invalid_payment_reply_def)
  have hd: "map_of (reply_headers ?reply) ''X-PAYMENT-REQUIRED'' = None"
    by (simp add: invalid_payment_reply_def map_add_def cors_headers_no_challenge)
  have b: "Option.bind (reply_body ?reply) (json_field ''error'') = Some (JStr ''Invalid Payment'')"
    by (simp add: invalid_payment_reply_def json_field_def)
  have m: "Option.bind (reply_body ?reply) (json_field ''message'') =
             map_option JStr (pv_error (verify rt ps (Some h)))"
    by (cases "pv_error (verify rt ps (Some h))")
       (simp_all add: invalid_payment_reply_def json_field_def optional_field_def)
  show "\<exists>reply.
             handle_request rt this uuid st req = (st, Reply reply) \<and>
             reply_status reply = 402 \<and>
             map_of (reply_headers reply) ''X-PAYMENT-REQUIRED'' = None \<and>
             Option.bind (reply_body reply) (json_field ''error'') =
               Some (JStr ''Invalid Payment'') \<and>
             Option.bind (reply_body reply) (json_field ''message'') =
               map_option JStr (pv_error (verify rt ps (Some h)))"
    using hr s hd b m by blast
qed

theorem guarded_request_challenged_witness:
  "paymentServer paid_server = Some paid_payment_server \<and>
   guarded paid_server (post_request ''/mcp'' None None (Some ''get-price'')) \<and>
   guarded paid_server (post_request ''/mcp'' (Some unrecognized_header) None (Some ''get-price'')) \<and>
   x_payment (post_request ''/mcp'' None None (Some ''get-price'')) = None \<and>
   (\<exists>reply. handle_request plain_runtime paid_server ''7f3c'' initial_state
               (post_request ''/mcp'' None None (Some ''get-price'')) = (initial_state, Reply reply) \<and>
            reply_status reply = 402 \<and>
            map_of (reply_headers reply) ''X-PAYMENT-REQUIRED'' =
              Some (base64_encode plain_runtime (JSON_stringify plain_runtime sample_challenge))) \<and>
   codec_roundtrip plain_runtime sample_challenge \<and>
   JSON_parse plain_runtime (base64_decode plain_runtime
      (base64_encode plain_runtime (JSON_stringify plain_runtime sample_challenge)))
     = Inr sample_challenge \<and>
   \<not> pv_valid (verify plain_runtime paid_payment_server (Some unrecognized_header)) \<and>
   (\<exists>reply. handle_request plain_runtime paid_server ''7f3c'' initial_state
               (post_request ''/mcp'' (Some unrecognized_header) None (Some ''get-price''))
               = (initial_state, Reply reply) \<and>
            reply_status reply = 402 \<and>
            map_of (reply_headers reply) ''X-PAYMENT-REQUIRED'' = None \<and>
            Option.bind (reply_body reply) (json_field ''error'') = Some (JStr ''Invalid Payment''))"
proof -
  let ?r1 = "post_request ''/mcp'' None None (Some ''get-price'')"
  let ?r2 = "post_request ''/mcp'' (Some unrecognized_header) None (Some ''get-price'')"
  have m1: "http_method ?r1 = ''POST''" and u1: "http_url ?r1 = ''/mcp'' \<or> http_url ?r1 = ''/''"
    and x1: "x_payment ?r1 = None"
    by (simp_all add: post_request_def)
  have m2: "http_method ?r2 = ''POST''" and u2: "http_url ?r2 = ''/mcp'' \<or> http_url ?r2 = ''/''"
    and x2: "x_payment ?r2 = Some unrecognized_header"
    by (simp_all add: post_request_def)
  have ne: "unrecognized_header \<noteq> []"
    by (simp add: unrecognized_header_def)
  have inv: "\<not> pv_valid (verify plain_runtime paid_payment_server (Some unrecognized_header))"
    by (simp add: unrecognized_header_invalid invalid_payment_def)
  have g1: "guarded paid_server ?r1" and g2: "guarded paid_server ?r2"
    by (rule get_price_guarded)+
  note t1 = guarded_request_challenged[OF paid_server_payment g1 m1 u1,
              of plain_runtime "''7f3c''" initial_state]
  note t2 = guarded_request_challenged[OF paid_server_payment g2 m2 u2,
              of plain_runtime "''7f3c''" initial_state]
  have c1: "\<exists>reply. handle_request plain_runtime paid_server ''7f3c'' initial_state ?r1
               = (initial_state, Reply reply) \<and>
            reply_status reply = 402 \<and>
            map_of (reply_headers reply) ''X-PAYMENT-REQUIRED'' =
              Some (base64_encode plain_runtime (JSON_stringify plain_runtime sample_challenge))"
    using t1 x1 unfolding sample_challenge_def by blast
  have cr: "codec_roundtrip plain_runtime sample_challenge"
    unfolding codec_roundtrip_def plain_runtime_def reference_runtime_def
    by (simp only: runtime.simps sample_challenge_text sample_challenge_base64
          sample_challenge_parse simp_thms)
  have d: "JSON_parse plain_runtime (base64_decode plain_runtime
      (base64_encode plain_runtime (JSON_stringify plain_runtime sample_challenge)))
     = Inr sample_challenge"
    using t1 x1 cr unfolding sample_challenge_def by blast
  have c2: "\<exists>reply. handle_request plain_runtime paid_server ''7f3c'' initial_state ?r2
               = (initial_state, Reply reply) \<and>
            reply_status reply = 402 \<and>
            map_of (reply_headers reply) ''X-PAYMENT-REQUIRED'' = None \<and>
            Option.bind (reply_body reply) (json_field ''error'') = Some (JStr ''Invalid Payment'')"
    using t2 x2 ne inv by blast
  show ?thesis
    using paid_server_payment g1 g2 x1 c1 cr d inv c2 by blast
qed


section \<open>Structural validation of a payment proof\<close>

lemma direct_authorization_accepted_iff:
  assumes "get_prop payload ''authorization'' = Inr (Some (JObj a))"
  shows "verify_try_payload rt ps payload net =
           (if truthy (map_of a ''from'') \<and> truthy (map_of a ''to'') \<and>
               truthy (map_of a ''value'') \<and> truthy (map_of a ''nonce'')
            then Inr \<lparr>pv_valid = True,
                      pv_payment = Some \<lparr>pd_from = map_of a ''from'', pd_to = map_of a ''to'',
                                         pd_amount = map_of a ''value'',
                                         pd_asset = Some (JStr (asset ps)),
                                         pd_network = net, pd_timestamp = Date_now rt\<rparr>,
                      pv_error = None\<rparr>
            else Inr (invalid_payment ''Invalid EIP-3009 authorization structure''))"
  using assms by (simp add: verify_try_payload_def)

lemma permit_accepted_unchecked:
  assumes "get_prop payload ''authorization'' = Inr auth" and "\<not> (truthy auth \<and> is_object auth)"
    and "get_prop payload ''permit2Authorization'' = Inr p2" and "truthy p2"
  shows "\<exists>r. verify_try_payload rt ps payload net = Inr r \<and> pv_valid r"
proof -
  have nn: "the p2 \<noteq> JNull" using assms(4) by (cases p2) auto
  obtain f w p where f: "get_prop (the p2) ''from'' = Inr f"
    and w: "get_prop (the p2) ''witness'' = Inr w"
    and p: "get_prop (the p2) ''permitted'' = Inr p"
    using nn by (cases "the p2") auto
  have ow: "\<exists>x. optional_prop w k = Inr x" for k
    by (cases w; cases "the w") (auto simp: optional_prop_def)
  have op: "\<exists>x. optional_prop p k = Inr x" for k
    by (cases p; cases "the p") (auto simp: optional_prop_def)
  obtain t am tk where "optional_prop w ''to'' = Inr t" "optional_prop p ''amount'' = Inr am"
    "optional_prop p ''token'' = Inr tk"
    using ow op by blast
  then show ?thesis
    using assms f w p by (auto simp: verify_try_payload_def)
qed

lemma other_shapes_unrecognized:
  assumes "get_prop payload ''authorization'' = Inr auth" and "\<not> (truthy auth \<and> is_object auth)"
    and "get_prop payload ''permit2Authorization'' = Inr p2" and "\<not> truthy p2"
  shows "verify_try_payload rt ps payload net =
           Inr (invalid_payment ''Unrecognized payment payload format'')"
  using assms by (auto simp: verify_try_payload_def)

text \<open>
  Claim C4: a permit-style payload is accepted only when it carries
  \<^verbatim>\<open>permitted{amount, token}\<close> and a witness \<^verbatim>\<open>to\<close>. The permit branch of \<^verbatim>\<open>verify\<close>
  reads these fields with optional chaining and checks none of them: a payload with a
  sender only is accepted, with recipient, amount and asset undefined.
\<close>

theorem bare_permit_accepted:
  "verify plain_runtime paid_payment_server (Some bare_permit_header) =
     \<lparr>pv_valid = True,
      pv_payment = Some \<lparr>pd_from = Some (JStr ''0xabc''), pd_to = None, pd_amount = None,
                         pd_asset = None, pd_network = JStr ''eip155:8453'',
                         pd_timestamp = 0\<rparr>,
      pv_error = None\<rparr>"
  by (simp add: verify_def parsePaymentHeader_def verify_try_payload_def optional_prop_def
        bare_permit_header_def plain_runtime_def reference_runtime_def paid_payment_server_def
        base64_eval json_eval string_eval)

section \<open>The payment client\<close>

text \<open>
  Claim C6: the connector does not retry a challenge that demands more than the configured
  per-request maximum. \<^verbatim>\<open>getPaidFetch\<close> hands the x402 wrapper the scheme registrations
  only; the maximum stored by the constructor reaches nothing. With a wrapper that retries
  once, a client configured with a maximum of 100000 pays a challenge for 500000.
\<close>

theorem max_amount_not_enforced:
  "transportFetch wrap base (Some (acct, Some ''100000'')) = wrap base [(''eip155:*'', acct)] \<and>
   transportFetch wrap base (Some (acct, Some ''100000'')) =
     transportFetch wrap base (Some (acct, None)) \<and>
   maxAmountPerRequest (new_PaymentClient
      \<lparr>account = acct, chains = None, maxAmountPerRequest = Some ''100000''\<rparr>) = Some ''100000'' \<and>
   challenging_server \<lparr>cr_url = ''https://agent.example/mcp'', cr_x_payment = None\<rparr> =
     \<lparr>rs_status = 402, rs_x_payment_required = Some ''maxAmountRequired=500000'',
      rs_body = ''Payment Required''\<rparr> \<and>
   transportFetch retry_once_wrapper challenging_server (Some (acct, Some ''100000''))
     \<lparr>cr_url = ''https://agent.example/mcp'', cr_x_payment = None\<rparr> =
     \<lparr>rs_status = 200, rs_x_payment_required = None, rs_body = ''price''\<rparr>"
  by (simp add: transportFetch_def client_fetch_def getPaidFetch_def new_PaymentClient_def
        retry_once_wrapper_def challenging_server_def Let_def fun_eq_iff)


section \<open>The session table\<close>

lemma free_gate: "payment_gate rt free_server req = None"
  by (simp add: payment_gate_def free_server_payment)

lemma reaches_lookup:
  assumes "\<not> (cors this \<and> http_method req = ''OPTIONS'')"
    and "http_url req = ''/mcp'' \<or> http_url req = ''/''"
    and "payment_gate rt this req = None"
  shows "handle_request rt this uuid st req = session_lookup rt this uuid st req"
  using assms by (auto simp: handle_request_def)

lemma closure_deletes:
  assumes "onclose st t = Some sid"
  shows "transports (transport_closed st t) sid = None"
  using assms by (simp add: transport_closed_def Let_def)

text \<open>A request that presents an id the table does not hold: every method but GET is
  answered 400 and changes nothing; a GET is never answered by the handler.\<close>

lemma stale_id_bad_request:
  assumes "transports st sid = None" and "sid \<noteq> []" and "mcp_session_id req = Some sid"
    and "http_method req \<noteq> ''GET''"
  shows "session_lookup rt this uuid st req = (st, Reply (bad_request_reply this))"
  using assms by (auto simp: session_lookup_def Let_def)

lemma stale_id_get_served:
  assumes "transports st sid = None" and "mcp_session_id req = Some sid"
    and "http_method req = ''GET''"
  shows "session_lookup rt this uuid st req =
           (case mcp_connect rt (connected st) (closed st) of
              Inl e \<Rightarrow> (st\<lparr>next_transport := Suc (next_transport st)\<rparr>, Rejected e)
            | Inr u \<Rightarrow>
                (st\<lparr>next_transport := Suc (next_transport st),
                    connected := connected st @ [next_transport st]\<rparr>,
                 Forward (next_transport st)))"
  using assms by (auto simp: session_lookup_def Let_def split: sum.splits)

lemma stale_id_get_not_refused:
  assumes "transports st sid = None" and "mcp_session_id req = Some sid"
    and "http_method req = ''GET''"
  shows "snd (session_lookup rt this uuid st req) \<noteq> Reply reply"
  unfolding stale_id_get_served[OF assms]
  by (cases "mcp_connect rt (connected st) (closed st)") simp_all

lemma first_session:
  "run plain_runtime free_server initial_state
     [Request ''7f3c'' (post_request ''/mcp'' None None None)] =
   \<lparr>transports = [''7f3c'' \<mapsto> 0], onclose = [0 \<mapsto> ''7f3c''], connected = [0], closed = [],
    next_transport = Suc 0\<rparr>"
  by (simp add: run_def handle_request_def free_gate free_server_cors session_lookup_def
        post_request_def initial_state_def plain_connect_first Let_def)

lemma first_session_closed:
  "run plain_runtime free_server initial_state
     [Request ''7f3c'' (post_request ''/mcp'' None None None), Closed 0] =
   \<lparr>transports = Map.empty, onclose = [0 \<mapsto> ''7f3c''], connected = [0], closed = [0],
    next_transport = Suc 0\<rparr>"
  using first_session
  by (simp add: run_def transport_closed_def Let_def)

lemma plain_connect_after_close: "mcp_connect plain_runtime [0] [0] = Inr ()"
  by (simp add: plain_runtime_def reference_runtime_def single_transport_connect_def)

text \<open>
  Claim C7: after a session's connection has closed, a request that presents its id is
  answered 400 whatever its method, and is not served over a fresh connection. The first
  POST opens the session \<open>7f3c\<close> on connection 0, and the closure of connection 0 deletes
  the id from the table. A DELETE that presents the id is then answered 400. A GET that
  presents it is handed to the new connection 1: the branch for GET does not test that the
  request carries no session id, as the branch for POST does.
\<close>

theorem stale_session_get_served:
  "transports (run plain_runtime free_server initial_state
      [Request ''7f3c'' (post_request ''/mcp'' None None None)]) ''7f3c'' = Some 0 \<and>
   transports (run plain_runtime free_server initial_state
      [Request ''7f3c'' (post_request ''/mcp'' None None None), Closed 0]) ''7f3c'' = None \<and>
   handle_request plain_runtime free_server ''91aa''
     (run plain_runtime free_server initial_state
        [Request ''7f3c'' (post_request ''/mcp'' None None None), Closed 0])
     (session_request ''DELETE'' ''7f3c'') =
     (run plain_runtime free_server initial_state
        [Request ''7f3c'' (post_request ''/mcp'' None None None), Closed 0],
      Reply \<lparr>reply_status = 400,
             reply_headers = cors_headers free_server @ [(''Content-Type'', ''application/json'')],
             reply_body = Some (JObj [(''error'', JStr ''Bad Request''),
                                      (''message'', JStr ''Missing MCP-Session-Id'')])\<rparr>) \<and>
   handle_request plain_runtime free_server ''91aa''
     (run plain_runtime free_server initial_state
        [Request ''7f3c'' (post_request ''/mcp'' None None None), Closed 0])
     (session_request ''GET'' ''7f3c'') =
     (\<lparr>transports = Map.empty, onclose = [0 \<mapsto> ''7f3c''], connected = [0, 1], closed = [0],
       next_transport = 2\<rparr>,
      Forward 1)"
proof -
  let ?st = "\<lparr>transports = Map.empty, onclose = [0 \<mapsto> ''7f3c''], connected = [0],
              closed = [0], next_transport = Suc 0\<rparr>"
  have a: "transports (run plain_runtime free_server initial_state
      [Request ''7f3c'' (post_request ''/mcp'' None None None)]) ''7f3c'' = Some 0"
    by (simp add: first_session)
  have b: "transports ?st ''7f3c'' = None"
    by simp
  have d: "handle_request plain_runtime free_server ''91aa'' ?st (session_request ''DELETE'' ''7f3c'') =
     (?st,
      Reply \<lparr>reply_status = 400,
             reply_headers = cors_headers free_server @ [(''Content-Type'', ''application/json'')],
             reply_body = Some (JObj [(''error'', JStr ''Bad Request''),
                                      (''message'', JStr ''Missing MCP-Session-Id'')])\<rparr>)"
    by (simp add: handle_request_def free_gate free_server_cors session_lookup_def
          session_request_def bad_request_reply_def Let_def)
  have g: "handle_request plain_runtime free_server ''91aa'' ?st (session_request ''GET'' ''7f3c'') =
     (\<lparr>transports = Map.empty, onclose = [0 \<mapsto> ''7f3c''], connected = [0, 1], closed = [0],
       next_transport = 2\<rparr>,
      Forward 1)"
    by (simp add: handle_request_def free_gate free_server_cors session_lookup_def
          session_request_def plain_connect_after_close Let_def)
  show ?thesis
    unfolding first_session_closed using a b d g by simp
qed

end
